theory Spec2Isabelle
  imports Complex_Main "HOL-Library.Log_Nat"
begin

section \<open>The thermostat accessory of homebridge-resideo (src/devices/device.ts, class TCCthermostat)\<close>

subsection \<open>JavaScript numbers\<close>

text \<open>
  A characteristic field of the class is declared \<^verbatim>\<open>number\<close>, but it is \<^verbatim>\<open>undefined\<close> until
  it is first assigned (the constructor's "default placeholders" assign nothing), and arithmetic
  on \<^verbatim>\<open>undefined\<close> gives \<^verbatim>\<open>NaN\<close>. A number is an IEEE 754 binary64 value: \<open>Num x\<close> is the
  finite double whose exact value is the real \<open>x\<close>, and there are the two infinities. The two
  zeros are one value here: they are \<^verbatim>\<open>===\<close>, and the class never divides by a variable.
\<close>

datatype jsnum = Undefined | NaN | PosInf | NegInf | Num real

text \<open>
  Rounding to the nearest double, ties to the even significand. \<open>expo x\<close> is
  \<open>\<lfloor>log\<^sub>2 \<bar>x\<bar>\<rfloor>\<close> for \<open>x \<noteq> 0\<close>, computed on integers; a double has 53 significant bits and its
  exponent is at least -1022, so the spacing of the doubles around \<open>x\<close> is
  \<open>2 powi (max (expo x) (- 1022) - 52)\<close>; a result of magnitude \<open>2 ^ 1024\<close> or more overflows
  to an infinity.
\<close>

definition expo :: "real \<Rightarrow> int" where
  "expo x =
     (if 1 \<le> \<bar>x\<bar> then bitlen \<lfloor>\<bar>x\<bar>\<rfloor> - 1 else - bitlen (\<lceil>1 / \<bar>x\<bar>\<rceil> - 1))"

definition round_even :: "real \<Rightarrow> int" where
  "round_even x =
     (let f = \<lfloor>x\<rfloor>; d = x - of_int f
      in if d < 1 / 2 then f else if 1 / 2 < d then f + 1 else if even f then f else f + 1)"

definition fl :: "real \<Rightarrow> jsnum" where
  "fl x =
     (if x = 0 then Num 0
      else
        let q = max (expo x) (- 1022) - 52;
            y = of_int (round_even (x / 2 powi q)) * 2 powi q
        in if 2 ^ 1024 \<le> \<bar>y\<bar> then (if 0 < x then PosInf else NegInf) else Num y)"

text \<open>The operators \<^verbatim>\<open>-\<close>, \<^verbatim>\<open>+\<close>, \<^verbatim>\<open>*\<close> and \<^verbatim>\<open>/\<close>: the exact result of two finite operands
  is rounded; \<^verbatim>\<open>undefined\<close> converts to \<^verbatim>\<open>NaN\<close>, and so do the undetermined forms of the
  infinities. A zero divisor counts as \<^verbatim>\<open>+0\<close>.\<close>

fun js_sub :: "jsnum \<Rightarrow> jsnum \<Rightarrow> jsnum" where
  "js_sub (Num a) (Num b) = fl (a - b)"
| "js_sub (Num a) PosInf = NegInf"
| "js_sub (Num a) NegInf = PosInf"
| "js_sub PosInf (Num b) = PosInf"
| "js_sub PosInf NegInf = PosInf"
| "js_sub NegInf (Num b) = NegInf"
| "js_sub NegInf PosInf = NegInf"
| "js_sub _ _ = NaN"

fun js_add :: "jsnum \<Rightarrow> jsnum \<Rightarrow> jsnum" where
  "js_add (Num a) (Num b) = fl (a + b)"
| "js_add (Num a) PosInf = PosInf"
| "js_add (Num a) NegInf = NegInf"
| "js_add PosInf (Num b) = PosInf"
| "js_add PosInf PosInf = PosInf"
| "js_add NegInf (Num b) = NegInf"
| "js_add NegInf NegInf = NegInf"
| "js_add _ _ = NaN"

fun js_mul :: "jsnum \<Rightarrow> jsnum \<Rightarrow> jsnum" where
  "js_mul (Num a) (Num b) = fl (a * b)"
| "js_mul (Num a) PosInf = (if 0 < a then PosInf else if a < 0 then NegInf else NaN)"
| "js_mul (Num a) NegInf = (if 0 < a then NegInf else if a < 0 then PosInf else NaN)"
| "js_mul PosInf (Num b) = (if 0 < b then PosInf else if b < 0 then NegInf else NaN)"
| "js_mul NegInf (Num b) = (if 0 < b then NegInf else if b < 0 then PosInf else NaN)"
| "js_mul PosInf PosInf = PosInf"
| "js_mul PosInf NegInf = NegInf"
| "js_mul NegInf PosInf = NegInf"
| "js_mul NegInf NegInf = PosInf"
| "js_mul _ _ = NaN"

fun js_div :: "jsnum \<Rightarrow> jsnum \<Rightarrow> jsnum" where
  "js_div (Num a) (Num b) =
     (if b = 0 then (if 0 < a then PosInf else if a < 0 then NegInf else NaN) else fl (a / b))"
| "js_div (Num a) PosInf = Num 0"
| "js_div (Num a) NegInf = Num 0"
| "js_div PosInf (Num b) = (if 0 \<le> b then PosInf else NegInf)"
| "js_div NegInf (Num b) = (if 0 \<le> b then NegInf else PosInf)"
| "js_div _ _ = NaN"

text \<open>\<^verbatim>\<open>Math.round\<close> returns the nearest integer, a tie going towards plus infinity; that is
  \<open>\<lfloor>x + 1/2\<rfloor>\<close> computed exactly, which is what \<^const>\<open>round\<close> computes, and it is a double
  whenever \<open>x\<close> is. An infinity is returned as it is.\<close>

fun Math_round :: "jsnum \<Rightarrow> jsnum" where
  "Math_round (Num a) = Num (of_int (round a))"
| "Math_round PosInf = PosInf"
| "Math_round NegInf = NegInf"
| "Math_round _ = NaN"

text \<open>\<^verbatim>\<open>a === b\<close> on such values: \<^verbatim>\<open>NaN\<close> equals nothing, itself included.\<close>

fun strict_eq :: "jsnum \<Rightarrow> jsnum \<Rightarrow> bool" where
  "strict_eq (Num a) (Num b) = (a = b)"
| "strict_eq Undefined Undefined = True"
| "strict_eq PosInf PosInf = True"
| "strict_eq NegInf NegInf = True"
| "strict_eq _ _ = False"

definition strict_ne :: "jsnum \<Rightarrow> jsnum \<Rightarrow> bool" where
  "strict_ne a b = (\<not> strict_eq a b)"

text \<open>\<^verbatim>\<open>a > 0\<close>: false for \<^verbatim>\<open>undefined\<close> and \<^verbatim>\<open>NaN\<close>.\<close>

fun gt_zero :: "jsnum \<Rightarrow> bool" where
  "gt_zero (Num a) = (0 < a)"
| "gt_zero PosInf = True"
| "gt_zero _ = False"

text \<open>Truthiness of a number in a condition: \<^verbatim>\<open>0\<close>, \<^verbatim>\<open>NaN\<close> and \<^verbatim>\<open>undefined\<close> are falsy.\<close>

fun truthy :: "jsnum \<Rightarrow> bool" where
  "truthy (Num a) = (a \<noteq> 0)"
| "truthy PosInf = True"
| "truthy NegInf = True"
| "truthy _ = False"

text \<open>\<^verbatim>\<open>xs[i]\<close> on an array: \<^verbatim>\<open>undefined\<close> (here \<open>None\<close>) unless \<open>i\<close> is an index of the array.\<close>

fun array_get :: "'a list \<Rightarrow> jsnum \<Rightarrow> 'a option" where
  "array_get xs (Num r) =
     (if 0 \<le> r \<and> of_int \<lfloor>r\<rfloor> = r \<and> nat \<lfloor>r\<rfloor> < length xs then Some (xs ! nat \<lfloor>r\<rfloor>) else None)"
| "array_get xs _ = None"

subsection \<open>The constants of the host framework\<close>

text \<open>The values of the HomeKit enumerations the class reads from
  \<^verbatim>\<open>platform.Characteristic\<close>; the source repeats those of the target state in a comment
  ("AUTO = 3; HEAT = 1; COOL = 2; OFF = 0").\<close>

definition OFF :: jsnum where "OFF = Num 0"
definition HEAT :: jsnum where "HEAT = Num 1"
definition COOL :: jsnum where "COOL = Num 2"
definition AUTO :: jsnum where "AUTO = Num 3"

definition CELSIUS :: jsnum where "CELSIUS = Num 0"
definition FAHRENHEIT :: jsnum where "FAHRENHEIT = Num 1"

definition INACTIVE :: jsnum where "INACTIVE = Num 0"
definition ACTIVE :: jsnum where "ACTIVE = Num 1"

definition FAN_MANUAL :: jsnum where "FAN_MANUAL = Num 0"
definition FAN_AUTO :: jsnum where "FAN_AUTO = Num 1"

subsection \<open>The remote device snapshot and the controller's state\<close>

text \<open>The fields of \<^verbatim>\<open>TCCDevice\<close> that the class reads. \<open>settings_fan\<close> is the truthiness of
  \<^verbatim>\<open>device.settings?.fan\<close>, the only way the class uses it.\<close>

record ChangeableValues =
  mode :: string
  heatSetpoint :: jsnum
  coolSetpoint :: jsnum

record OperationStatus =
  operation_mode :: string

record TCCDevice =
  units :: string
  indoorTemperature :: jsnum
  indoorHumidity :: jsnum
  allowedModes :: "string list"
  minHeatSetpoint :: jsnum
  minCoolSetpoint :: jsnum
  changeableValues :: ChangeableValues
  operationStatus :: OperationStatus
  settings_fan :: bool

record FanChangeableValues =
  fan_mode :: string

text \<open>\<^verbatim>\<open>platform.config.options?.thermostat\<close>: absent (\<open>None\<close>) when either \<^verbatim>\<open>options\<close> or
  \<^verbatim>\<open>options.thermostat\<close> is not configured.\<close>

record thermostat_options =
  hide_fan :: bool
  thermostatSetpointStatus :: "string option"

text \<open>The body of a thermostat write, and what the class does to the outside world. Logging
  is left out. \<open>UpdateCharacteristicError\<close> is \<^verbatim>\<open>updateCharacteristic(c, e)\<close> with the caught
  error in the place of a value.\<close>

record payload =
  payload_mode :: "string option"
  payload_thermostatSetpointStatus :: "string option"
  payload_heatSetpoint :: jsnum
  payload_coolSetpoint :: jsnum

datatype characteristic =
    Characteristic_TemperatureDisplayUnits
  | Characteristic_CurrentTemperature
  | Characteristic_CurrentRelativeHumidity
  | Characteristic_TargetTemperature
  | Characteristic_HeatingThresholdTemperature
  | Characteristic_CoolingThresholdTemperature
  | Characteristic_TargetHeatingCoolingState
  | Characteristic_CurrentHeatingCoolingState
  | Characteristic_TargetFanState
  | Characteristic_Active

datatype channel = doThermostatUpdate | doFanUpdate

datatype event =
    UpdateCharacteristic characteristic jsnum
  | UpdateCharacteristicError characteristic
  | AxiosGetThermostat
  | AxiosGetFan
  | AxiosPostThermostat payload
  | AxiosPostFan string
  | RefreshAccessToken
  | SubjectNext channel
  | CallbackNull

text \<open>The object: the snapshot, the fan sub-resource (\<open>None\<close> until the first fetch), whether
  \<^verbatim>\<open>this.fanService\<close> is defined, the configuration, the characteristic fields, the two
  in-progress flags, and the effects performed so far (oldest first).\<close>

record TCCthermostat =
  device :: TCCDevice
  deviceFan :: "FanChangeableValues option"
  fanService :: bool
  options_thermostat :: "thermostat_options option"
  CurrentTemperature :: jsnum
  TargetTemperature :: jsnum
  CurrentHeatingCoolingState :: jsnum
  TargetHeatingCoolingState :: jsnum
  CoolingThresholdTemperature :: jsnum
  HeatingThresholdTemperature :: jsnum
  CurrentRelativeHumidity :: jsnum
  TemperatureDisplayUnits :: jsnum
  Active :: jsnum
  TargetFanState :: jsnum
  thermostatUpdateInProgress :: bool
  fanUpdateInProgress :: bool
  trace :: "event list"

text \<open>Each operation below is run to its end on the state it starts from: a handler of the
  host arriving while a request is awaited, the debounce timers and the refresh interval are
  outside the model.\<close>

text \<open>What the transport answers during one operation: whether the write is accepted, and the
  bodies of the two reads (\<open>None\<close>: the request is rejected).\<close>

record transport =
  post_ok :: bool
  get_thermostat :: "TCCDevice option"
  get_fan :: "FanChangeableValues option"

definition emit :: "event \<Rightarrow> TCCthermostat \<Rightarrow> TCCthermostat" where
  "emit e s = s\<lparr>trace := trace s @ [e]\<rparr>"

text \<open>The effects performed between two states of the object.\<close>

definition emitted :: "TCCthermostat \<Rightarrow> TCCthermostat \<Rightarrow> event list" where
  "emitted s s' = drop (length (trace s)) (trace s')"

subsection \<open>Unit and mode translation\<close>

text \<open>\<^verbatim>\<open>this.modes\<close> and \<^verbatim>\<open>this.honeywellMode\<close>, as the constructor sets them; a name that is not
  a key of \<^verbatim>\<open>modes\<close> reads as \<^verbatim>\<open>undefined\<close>.\<close>

definition modes :: "string \<Rightarrow> jsnum" where
  "modes m =
     (if m = ''Off'' then OFF else if m = ''Heat'' then HEAT
      else if m = ''Cool'' then COOL else if m = ''Auto'' then AUTO else Undefined)"

definition honeywellMode :: "string list" where
  "honeywellMode = [''Off'', ''Heat'', ''Cool'', ''Auto'']"

text \<open>\<^verbatim>\<open>toCelsius\<close> and \<^verbatim>\<open>toFahrenheit\<close>, one operation of the source after the other in the
  order JavaScript evaluates them, each rounding its result to a double.\<close>

definition toCelsius :: "TCCthermostat \<Rightarrow> jsnum \<Rightarrow> jsnum" where
  "toCelsius s v =
     (if strict_eq (TemperatureDisplayUnits s) CELSIUS then v
      else js_div (Math_round (js_mul (js_mul (js_div (Num 5) (Num 9)) (js_sub v (Num 32))) (Num 2)))
             (Num 2))"

definition toFahrenheit :: "TCCthermostat \<Rightarrow> jsnum \<Rightarrow> jsnum" where
  "toFahrenheit s v =
     (if strict_eq (TemperatureDisplayUnits s) CELSIUS then v
      else Math_round (js_add (js_div (js_mul v (Num 9)) (Num 5)) (Num 32)))"

text \<open>The two conversion expressions by themselves, to state facts about them.\<close>

abbreviation fahrenheit_to_celsius :: "jsnum \<Rightarrow> jsnum" where
  "fahrenheit_to_celsius v \<equiv>
     js_div (Math_round (js_mul (js_mul (js_div (Num 5) (Num 9)) (js_sub v (Num 32))) (Num 2))) (Num 2)"

abbreviation celsius_to_fahrenheit :: "jsnum \<Rightarrow> jsnum" where
  "celsius_to_fahrenheit v \<equiv> Math_round (js_add (js_div (js_mul v (Num 9)) (Num 5)) (Num 32))"

subsection \<open>The refresh path\<close>

text \<open>A method either returns or throws; what it has assigned before it throws stays
  assigned.\<close>

datatype outcome = Returned | Threw

text \<open>The condition \<^verbatim>\<open>this.device.settings?.fan && !this.platform.config.options?.thermostat?.hide_fan\<close>,
  which guards every fan branch but the one of \<^verbatim>\<open>parseStatus\<close>: a missing option reads as
  \<^verbatim>\<open>undefined\<close>, whose negation is true.\<close>

definition fan_enabled :: "TCCthermostat \<Rightarrow> bool" where
  "fan_enabled s =
     (settings_fan (device s) \<and>
      \<not> (case options_thermostat s of None \<Rightarrow> False | Some t \<Rightarrow> hide_fan t))"

text \<open>\<^verbatim>\<open>parseStatus\<close>, block by block in the order of the source. Display units: a unit string
  that is neither name leaves the field as it was.\<close>

definition parse_units :: "TCCthermostat \<Rightarrow> TCCthermostat" where
  "parse_units s =
     (let s1 = (if units (device s) = ''Fahrenheit''
                then s\<lparr>TemperatureDisplayUnits := FAHRENHEIT\<rparr> else s)
      in if units (device s1) = ''Celsius''
         then s1\<lparr>TemperatureDisplayUnits := CELSIUS\<rparr> else s1)"

definition parse_indoor :: "TCCthermostat \<Rightarrow> TCCthermostat" where
  "parse_indoor s =
     s\<lparr>CurrentTemperature := toCelsius s (indoorTemperature (device s)),
       CurrentRelativeHumidity := indoorHumidity (device s)\<rparr>"

definition parse_thresholds :: "TCCthermostat \<Rightarrow> TCCthermostat" where
  "parse_thresholds s =
     (let s1 = (if gt_zero (heatSetpoint (changeableValues (device s)))
                then s\<lparr>HeatingThresholdTemperature :=
                         toCelsius s (heatSetpoint (changeableValues (device s)))\<rparr>
                else s)
      in if gt_zero (coolSetpoint (changeableValues (device s1)))
         then s1\<lparr>CoolingThresholdTemperature :=
                   toCelsius s1 (coolSetpoint (changeableValues (device s1)))\<rparr>
         else s1)"

definition parse_states :: "TCCthermostat \<Rightarrow> TCCthermostat" where
  "parse_states s =
     s\<lparr>TargetHeatingCoolingState := modes (mode (changeableValues (device s))),
       CurrentHeatingCoolingState :=
         (if operation_mode (operationStatus (device s)) = ''Heat'' then Num 1
          else if operation_mode (operationStatus (device s)) = ''Cool'' then Num 2
          else Num 0)\<rparr>"

definition parse_target_temperature :: "TCCthermostat \<Rightarrow> TCCthermostat" where
  "parse_target_temperature s =
     (if strict_eq (TargetHeatingCoolingState s) HEAT then
        (if gt_zero (heatSetpoint (changeableValues (device s))) \<or> truthy (minHeatSetpoint (device s))
         then s\<lparr>TargetTemperature := toCelsius s (heatSetpoint (changeableValues (device s)))\<rparr>
         else s)
      else
        (if gt_zero (coolSetpoint (changeableValues (device s))) \<or> truthy (minCoolSetpoint (device s))
         then s\<lparr>TargetTemperature := toCelsius s (coolSetpoint (changeableValues (device s)))\<rparr>
         else s))"

definition parse_fan_mode :: "FanChangeableValues \<Rightarrow> TCCthermostat \<Rightarrow> TCCthermostat" where
  "parse_fan_mode f s =
     (if fan_mode f = ''Auto'' then s\<lparr>TargetFanState := FAN_AUTO, Active := INACTIVE\<rparr>
      else if fan_mode f = ''On'' then s\<lparr>TargetFanState := FAN_MANUAL, Active := ACTIVE\<rparr>
      else if fan_mode f = ''Circulate'' then s\<lparr>TargetFanState := FAN_MANUAL, Active := INACTIVE\<rparr>
      else s)"

text \<open>The fan block reads \<^verbatim>\<open>config.options!.thermostat!.hide_fan\<close>: the assertions do nothing at
  run time, so with the fan capability present and the thermostat options absent the read is
  of a property of \<^verbatim>\<open>undefined\<close> and throws.\<close>

definition parse_fan :: "TCCthermostat \<Rightarrow> outcome \<times> TCCthermostat" where
  "parse_fan s =
     (if settings_fan (device s) then
        (case options_thermostat s of
           None \<Rightarrow> (Threw, s)
         | Some t \<Rightarrow>
             if \<not> hide_fan t then
               (case deviceFan s of None \<Rightarrow> (Returned, s) | Some f \<Rightarrow> (Returned, parse_fan_mode f s))
             else (Returned, s))
      else (Returned, s))"

definition parseStatus :: "TCCthermostat \<Rightarrow> outcome \<times> TCCthermostat" where
  "parseStatus s =
     parse_fan (parse_target_temperature (parse_states (parse_thresholds (parse_indoor (parse_units s)))))"

text \<open>\<^verbatim>\<open>this.fanService?.updateCharacteristic\<close>: nothing happens when the service is undefined.\<close>

definition updateHomeKitCharacteristics :: "TCCthermostat \<Rightarrow> TCCthermostat" where
  "updateHomeKitCharacteristics s =
     s\<lparr>trace := trace s @
        [UpdateCharacteristic Characteristic_TemperatureDisplayUnits (TemperatureDisplayUnits s),
         UpdateCharacteristic Characteristic_CurrentTemperature (CurrentTemperature s),
         UpdateCharacteristic Characteristic_CurrentRelativeHumidity (CurrentRelativeHumidity s),
         UpdateCharacteristic Characteristic_TargetTemperature (TargetTemperature s),
         UpdateCharacteristic Characteristic_HeatingThresholdTemperature (HeatingThresholdTemperature s),
         UpdateCharacteristic Characteristic_CoolingThresholdTemperature (CoolingThresholdTemperature s),
         UpdateCharacteristic Characteristic_TargetHeatingCoolingState (TargetHeatingCoolingState s),
         UpdateCharacteristic Characteristic_CurrentHeatingCoolingState (CurrentHeatingCoolingState s)] @
        (if fan_enabled s \<and> fanService s
         then [UpdateCharacteristic Characteristic_TargetFanState (TargetFanState s),
               UpdateCharacteristic Characteristic_Active (Active s)]
         else [])\<rparr>"

definition apiError :: "TCCthermostat \<Rightarrow> TCCthermostat" where
  "apiError s =
     s\<lparr>trace := trace s @
        [UpdateCharacteristicError Characteristic_TemperatureDisplayUnits,
         UpdateCharacteristicError Characteristic_CurrentTemperature,
         UpdateCharacteristicError Characteristic_CurrentRelativeHumidity,
         UpdateCharacteristicError Characteristic_TargetTemperature,
         UpdateCharacteristicError Characteristic_HeatingThresholdTemperature,
         UpdateCharacteristicError Characteristic_CoolingThresholdTemperature,
         UpdateCharacteristicError Characteristic_TargetHeatingCoolingState,
         UpdateCharacteristicError Characteristic_CurrentHeatingCoolingState] @
        (if fan_enabled s \<and> fanService s
         then [UpdateCharacteristicError Characteristic_TargetFanState,
               UpdateCharacteristicError Characteristic_Active]
         else [])\<rparr>"

text \<open>\<^verbatim>\<open>refreshStatus\<close> catches whatever its body throws, so it always returns. An answer to a
  read is assigned only when the read succeeds.\<close>

definition refresh_catch :: "TCCthermostat \<Rightarrow> TCCthermostat" where
  "refresh_catch s = apiError (emit RefreshAccessToken s)"

definition refresh_parse :: "TCCthermostat \<Rightarrow> TCCthermostat" where
  "refresh_parse s =
     (case parseStatus s of
        (Threw, s') \<Rightarrow> refresh_catch s'
      | (Returned, s') \<Rightarrow> updateHomeKitCharacteristics s')"

definition refreshStatus :: "transport \<Rightarrow> TCCthermostat \<Rightarrow> TCCthermostat" where
  "refreshStatus n s =
     (let s0 = emit AxiosGetThermostat s in
      case get_thermostat n of
        None \<Rightarrow> refresh_catch s0
      | Some d \<Rightarrow>
          let s1 = s0\<lparr>device := d\<rparr> in
          if fan_enabled s1 then
            (let s2 = emit AxiosGetFan s1 in
             case get_fan n of
               None \<Rightarrow> refresh_catch s2
             | Some f \<Rightarrow> refresh_parse (s2\<lparr>deviceFan := Some f\<rparr>))
          else refresh_parse s1)"


subsection \<open>The push path\<close>

definition pushChanges :: "transport \<Rightarrow> TCCthermostat \<Rightarrow> outcome \<times> TCCthermostat" where
  "pushChanges n s =
     (if strict_ne (HeatingThresholdTemperature s)
           (toCelsius s (heatSetpoint (changeableValues (device s)))) \<or>
         strict_ne (CoolingThresholdTemperature s)
           (toCelsius s (coolSetpoint (changeableValues (device s)))) \<or>
         strict_ne (TargetHeatingCoolingState s) (modes (mode (changeableValues (device s))))
      then
        (let p0 = \<lparr>payload_mode = array_get honeywellMode (TargetHeatingCoolingState s),
                    payload_thermostatSetpointStatus =
                      (case options_thermostat s of None \<Rightarrow> None
                       | Some t \<Rightarrow> thermostatSetpointStatus t),
                    payload_heatSetpoint = Undefined,
                    payload_coolSetpoint = Undefined\<rparr>;
             p =
               (if strict_eq (TargetHeatingCoolingState s) HEAT then
                  p0\<lparr>payload_heatSetpoint := toFahrenheit s (TargetTemperature s),
                     payload_coolSetpoint := toFahrenheit s (CoolingThresholdTemperature s)\<rparr>
                else if strict_eq (TargetHeatingCoolingState s) COOL then
                  p0\<lparr>payload_coolSetpoint := toFahrenheit s (TargetTemperature s),
                     payload_heatSetpoint := toFahrenheit s (HeatingThresholdTemperature s)\<rparr>
                else if strict_eq (TargetHeatingCoolingState s) AUTO then
                  p0\<lparr>payload_coolSetpoint := toFahrenheit s (CoolingThresholdTemperature s),
                     payload_heatSetpoint := toFahrenheit s (HeatingThresholdTemperature s)\<rparr>
                else
                  p0\<lparr>payload_coolSetpoint := toFahrenheit s (CoolingThresholdTemperature s),
                     payload_heatSetpoint := toFahrenheit s (HeatingThresholdTemperature s)\<rparr>);
             s1 = emit (AxiosPostThermostat p) s
         in if post_ok n then (Returned, refreshStatus n s1) else (Threw, s1))
      else (Returned, s))"

definition pushFanChanges :: "transport \<Rightarrow> TCCthermostat \<Rightarrow> outcome \<times> TCCthermostat" where
  "pushFanChanges n s =
     (if fan_enabled s then
        (let m =
               (if strict_eq (TargetFanState s) FAN_AUTO then ''Auto''
                else if strict_eq (TargetFanState s) FAN_MANUAL \<and> strict_eq (Active s) ACTIVE
                then ''On''
                else if strict_eq (TargetFanState s) FAN_MANUAL \<and> strict_eq (Active s) INACTIVE
                then ''Circulate''
                else ''Auto'');
             s1 = emit (AxiosPostFan m) s
         in if post_ok n then (Returned, refreshStatus n s1) else (Threw, s1))
      else (Returned, refreshStatus n s))"

text \<open>The two pending-change channels. \<^verbatim>\<open>next()\<close> on the subject runs the \<^verbatim>\<open>tap\<close> of the
  pipeline at once, which raises the in-progress flag; the flush itself runs when the debounce
  timer expires. The subscribers are the \<^verbatim>\<open>try\<close>/\<^verbatim>\<open>catch\<close> blocks of the constructor. The fan
  pipeline is subscribed under the condition under which the fan handlers are bound.\<close>

definition doThermostatUpdate_next :: "TCCthermostat \<Rightarrow> TCCthermostat" where
  "doThermostatUpdate_next s = emit (SubjectNext doThermostatUpdate) (s\<lparr>thermostatUpdateInProgress := True\<rparr>)"

definition doFanUpdate_next :: "TCCthermostat \<Rightarrow> TCCthermostat" where
  "doFanUpdate_next s = emit (SubjectNext doFanUpdate) (s\<lparr>fanUpdateInProgress := True\<rparr>)"

definition doThermostatUpdate_subscriber :: "transport \<Rightarrow> TCCthermostat \<Rightarrow> TCCthermostat" where
  "doThermostatUpdate_subscriber n s =
     (case pushChanges n s of
        (Threw, s') \<Rightarrow> (apiError s')\<lparr>thermostatUpdateInProgress := False\<rparr>
      | (Returned, s') \<Rightarrow> s'\<lparr>thermostatUpdateInProgress := False\<rparr>)"

definition doFanUpdate_subscriber :: "transport \<Rightarrow> TCCthermostat \<Rightarrow> TCCthermostat" where
  "doFanUpdate_subscriber n s =
     (case pushFanChanges n s of
        (Threw, s') \<Rightarrow> (apiError s')\<lparr>fanUpdateInProgress := False\<rparr>
      | (Returned, s') \<Rightarrow> s'\<lparr>fanUpdateInProgress := False\<rparr>)"

subsection \<open>The handlers of the host's set requests\<close>

definition setTargetHeatingCoolingState :: "jsnum \<Rightarrow> TCCthermostat \<Rightarrow> TCCthermostat" where
  "setTargetHeatingCoolingState v s =
     (let s1 = s\<lparr>TargetHeatingCoolingState := v\<rparr>;
          s2 = (if strict_eq (TargetHeatingCoolingState s1) HEAT
                then s1\<lparr>TargetTemperature := toCelsius s1 (heatSetpoint (changeableValues (device s1)))\<rparr>
                else s1\<lparr>TargetTemperature := toCelsius s1 (coolSetpoint (changeableValues (device s1)))\<rparr>);
          s3 = emit (UpdateCharacteristic Characteristic_TargetTemperature (TargetTemperature s2)) s2
      in emit CallbackNull (doThermostatUpdate_next s3))"

definition setHeatingThresholdTemperature :: "jsnum \<Rightarrow> TCCthermostat \<Rightarrow> TCCthermostat" where
  "setHeatingThresholdTemperature v s =
     emit CallbackNull (doThermostatUpdate_next (s\<lparr>HeatingThresholdTemperature := v\<rparr>))"

definition setCoolingThresholdTemperature :: "jsnum \<Rightarrow> TCCthermostat \<Rightarrow> TCCthermostat" where
  "setCoolingThresholdTemperature v s =
     emit CallbackNull (doThermostatUpdate_next (s\<lparr>CoolingThresholdTemperature := v\<rparr>))"

definition setTargetTemperature :: "jsnum \<Rightarrow> TCCthermostat \<Rightarrow> TCCthermostat" where
  "setTargetTemperature v s =
     emit CallbackNull (doThermostatUpdate_next (s\<lparr>TargetTemperature := v\<rparr>))"

definition setActive :: "jsnum \<Rightarrow> TCCthermostat \<Rightarrow> TCCthermostat" where
  "setActive v s = emit CallbackNull (doFanUpdate_next (s\<lparr>Active := v\<rparr>))"

definition setTargetFanState :: "jsnum \<Rightarrow> TCCthermostat \<Rightarrow> TCCthermostat" where
  "setTargetFanState v s = emit CallbackNull (doFanUpdate_next (s\<lparr>TargetFanState := v\<rparr>))"

subsection \<open>The valid target states\<close>

text \<open>The array starts as \<^verbatim>\<open>[4]\<close> and is emptied by \<^verbatim>\<open>pop()\<close> before anything is pushed.\<close>

definition TargetState :: "TCCthermostat \<Rightarrow> jsnum list" where
  "TargetState s =
     (let t0 = butlast [Num 4];
          t1 = (if ''Cool'' \<in> set (allowedModes (device s)) then t0 @ [COOL] else t0);
          t2 = (if ''Heat'' \<in> set (allowedModes (device s)) then t1 @ [HEAT] else t1);
          t3 = (if ''Off'' \<in> set (allowedModes (device s)) then t2 @ [OFF] else t2)
      in if ''Auto'' \<in> set (allowedModes (device s)) then t3 @ [AUTO] else t3)"

text \<open>Which effects are requests to the remote service.\<close>

fun is_network :: "event \<Rightarrow> bool" where
  "is_network AxiosGetThermostat = True"
| "is_network AxiosGetFan = True"
| "is_network (AxiosPostThermostat p) = True"
| "is_network (AxiosPostFan m) = True"
| "is_network _ = False"

text \<open>A state to evaluate the operations on: a Fahrenheit thermostat in Heat mode with a fan,
  as a refresh leaves it (heat setpoint 68, cool setpoint 75, fan on Auto).\<close>

definition example_device :: TCCDevice where
  "example_device =
     \<lparr>units = ''Fahrenheit'', indoorTemperature = Num 70, indoorHumidity = Num 40,
       allowedModes = [''Heat'', ''Off''], minHeatSetpoint = Num 50, minCoolSetpoint = Num 50,
       changeableValues = \<lparr>mode = ''Heat'', heatSetpoint = Num 68, coolSetpoint = Num 75\<rparr>,
       operationStatus = \<lparr>operation_mode = ''Heat''\<rparr>, settings_fan = True\<rparr>"

definition example_state :: TCCthermostat where
  "example_state =
     \<lparr>device = example_device, deviceFan = Some \<lparr>fan_mode = ''Auto''\<rparr>, fanService = True,
       options_thermostat = Some \<lparr>hide_fan = False, thermostatSetpointStatus = Some ''NoHold''\<rparr>,
       CurrentTemperature = Num 21, TargetTemperature = Num 20, CurrentHeatingCoolingState = Num 1,
       TargetHeatingCoolingState = HEAT, CoolingThresholdTemperature = Num 24,
       HeatingThresholdTemperature = Num 20, CurrentRelativeHumidity = Num 40,
       TemperatureDisplayUnits = FAHRENHEIT, Active = INACTIVE, TargetFanState = FAN_AUTO,
       thermostatUpdateInProgress = False, fanUpdateInProgress = False, trace = []\<rparr>"

definition failing_transport :: transport where
  "failing_transport = \<lparr>post_ok = False, get_thermostat = None, get_fan = None\<rparr>"

definition working_transport :: transport where
  "working_transport =
     \<lparr>post_ok = True, get_thermostat = Some example_device, get_fan = Some \<lparr>fan_mode = ''Auto''\<rparr>\<rparr>"

text \<open>Further states and transports to evaluate on: a snapshot whose heat setpoint is zero,
  with \<^verbatim>\<open>minHeatSetpoint\<close> zero and with \<^verbatim>\<open>minHeatSetpoint\<close> 50; the heating threshold changed by
  the host; a Celsius thermostat; a transport that rejects the fan read; a platform without
  thermostat options; a fan set to manual and active.\<close>

definition zero_heat_setpoint_state :: TCCthermostat where
  "zero_heat_setpoint_state =
     example_state\<lparr>device := example_device\<lparr>minHeatSetpoint := Num 0,
       changeableValues := \<lparr>mode = ''Heat'', heatSetpoint = Num 0, coolSetpoint = Num 75\<rparr>\<rparr>\<rparr>"

definition zero_heat_setpoint_min50_state :: TCCthermostat where
  "zero_heat_setpoint_min50_state =
     example_state\<lparr>device := example_device\<lparr>
       changeableValues := \<lparr>mode = ''Heat'', heatSetpoint = Num 0, coolSetpoint = Num 75\<rparr>\<rparr>\<rparr>"

definition changed_threshold_state :: TCCthermostat where
  "changed_threshold_state = example_state\<lparr>HeatingThresholdTemperature := Num 21\<rparr>"

definition celsius_state :: TCCthermostat where
  "celsius_state =
     example_state\<lparr>device := example_device\<lparr>units := ''Celsius'',
       changeableValues := \<lparr>mode = ''Heat'', heatSetpoint = Num 20, coolSetpoint = Num 22\<rparr>\<rparr>,
       TemperatureDisplayUnits := CELSIUS, CoolingThresholdTemperature := Num 22\<rparr>"

definition fan_failing_transport :: transport where
  "fan_failing_transport = \<lparr>post_ok = True, get_thermostat = Some example_device, get_fan = None\<rparr>"

definition unconfigured_state :: TCCthermostat where
  "unconfigured_state = example_state\<lparr>options_thermostat := None\<rparr>"

definition manual_fan_state :: TCCthermostat where
  "manual_fan_state = example_state\<lparr>TargetFanState := FAN_MANUAL, Active := ACTIVE\<rparr>"

text \<open>A thermostat as the constructor leaves it when its first snapshot reports no fan and the
  accessory has no fan service: \<^verbatim>\<open>this.fanService\<close> is undefined, and nothing assigns it later,
  while every successful read replaces the snapshot.\<close>

definition no_fan_state :: TCCthermostat where
  "no_fan_state =
     example_state\<lparr>device := example_device\<lparr>settings_fan := False\<rparr>, deviceFan := None,
       fanService := False\<rparr>"

text \<open>The owned characteristics in the words of the specification: the eight of the thermostat,
  and the two of the fan when the fan capability is enabled and not hidden.\<close>

definition owned_characteristics :: "TCCthermostat \<Rightarrow> characteristic list" where
  "owned_characteristics s =
     [Characteristic_TemperatureDisplayUnits, Characteristic_CurrentTemperature,
      Characteristic_CurrentRelativeHumidity, Characteristic_TargetTemperature,
      Characteristic_HeatingThresholdTemperature, Characteristic_CoolingThresholdTemperature,
      Characteristic_TargetHeatingCoolingState, Characteristic_CurrentHeatingCoolingState] @
     (if fan_enabled s then [Characteristic_TargetFanState, Characteristic_Active] else [])"

text \<open>What \<^verbatim>\<open>apiError\<close> publishes, written out: the fan characteristics are reached through
  \<^verbatim>\<open>this.fanService?.\<close>, so they are skipped when the service is undefined.\<close>

abbreviation error_broadcast :: "TCCthermostat \<Rightarrow> event list" where
  "error_broadcast s \<equiv>
     [UpdateCharacteristicError Characteristic_TemperatureDisplayUnits,
      UpdateCharacteristicError Characteristic_CurrentTemperature,
      UpdateCharacteristicError Characteristic_CurrentRelativeHumidity,
      UpdateCharacteristicError Characteristic_TargetTemperature,
      UpdateCharacteristicError Characteristic_HeatingThresholdTemperature,
      UpdateCharacteristicError Characteristic_CoolingThresholdTemperature,
      UpdateCharacteristicError Characteristic_TargetHeatingCoolingState,
      UpdateCharacteristicError Characteristic_CurrentHeatingCoolingState] @
     (if fan_enabled s \<and> fanService s
      then [UpdateCharacteristicError Characteristic_TargetFanState,
            UpdateCharacteristicError Characteristic_Active]
      else [])"

subsection \<open>Auxiliary facts\<close>

lemma strict_eq_Num [simp]: "strict_eq x (Num a) = (x = Num a)"
  by (cases x) auto

lemma expo_bounds:
  assumes "x \<noteq> 0"
  shows "2 powi (expo x) \<le> \<bar>x\<bar> \<and> \<bar>x\<bar> < 2 powi (expo x + 1)"
proof (cases "1 \<le> \<bar>x\<bar>")
    case True
    define n where "n = \<lfloor>\<bar>x\<bar>\<rfloor>"
    have n: "0 < n" using True by (simp add: n_def)
    have b1: "1 \<le> bitlen n" using n by (simp add: bitlen_alt_def)
    have e: "expo x = bitlen n - 1" using True by (simp add: expo_def n_def)
    from bitlen_bounds[OF n] have lo: "2 ^ nat (bitlen n - 1) \<le> n" and hi: "n < 2 ^ nat (bitlen n)"
      by auto
    have "real_of_int n \<le> \<bar>x\<bar>" by (simp add: n_def)
    moreover have "(2::real) ^ nat (bitlen n - 1) \<le> real_of_int n"
      using lo by (metis of_int_le_iff of_int_numeral of_int_power)
    ultimately have "(2::real) ^ nat (bitlen n - 1) \<le> \<bar>x\<bar>" by linarith
    then have A: "2 powi (expo x) \<le> \<bar>x\<bar>" using b1 by (simp add: e power_int_def)
    have "n + 1 \<le> 2 ^ nat (bitlen n)" using hi by simp
    then have "real_of_int (n + 1) \<le> (2::real) ^ nat (bitlen n)"
      by (metis of_int_le_iff of_int_numeral of_int_power)
    moreover have "\<bar>x\<bar> < real_of_int (n + 1)" by (simp add: n_def)
    ultimately have "\<bar>x\<bar> < (2::real) ^ nat (bitlen n)" by linarith
    then have "\<bar>x\<bar> < 2 powi (expo x + 1)" using b1 by (simp add: e power_int_def)
    with A show ?thesis by simp
  next
    case False
    define r where "r = 1 / \<bar>x\<bar>"
    have xp: "0 < \<bar>x\<bar>" "\<bar>x\<bar> < 1" using assms False by auto
    have r1: "1 < r" using xp by (simp add: r_def)
    define m where "m = \<lceil>r\<rceil> - 1"
    have m: "0 < m" using r1 by (simp add: m_def)
    have "real_of_int \<lceil>r\<rceil> < r + 1" by linarith
    then have mr1: "real_of_int m < r" by (simp add: m_def)
    have mr2: "r \<le> real_of_int m + 1" by (simp add: m_def)
    note mr = mr1 mr2
    have b1: "1 \<le> bitlen m" using m by (simp add: bitlen_alt_def)
    have e: "expo x = - bitlen m" using False by (simp add: expo_def m_def r_def)
    from bitlen_bounds[OF m] have lo: "2 ^ nat (bitlen m - 1) \<le> m" and hi: "m < 2 ^ nat (bitlen m)"
      by auto
    have lo': "(2::real) ^ nat (bitlen m - 1) \<le> real_of_int m"
      using lo by (metis of_int_le_iff of_int_numeral of_int_power)
    have "m + 1 \<le> 2 ^ nat (bitlen m)" using hi by simp
    then have hi': "real_of_int (m + 1) \<le> (2::real) ^ nat (bitlen m)"
      by (metis of_int_le_iff of_int_numeral of_int_power)
    have rhi: "r \<le> 2 ^ nat (bitlen m)" using hi' mr by simp
    have rlo: "2 ^ nat (bitlen m - 1) < r" using lo' mr by linarith
    have x: "\<bar>x\<bar> = 1 / r" using xp by (simp add: r_def)
    have "1 / 2 ^ nat (bitlen m) \<le> 1 / r"
      using rhi r1 by (simp add: frac_le)
    then have A: "2 powi (expo x) \<le> \<bar>x\<bar>"
      using b1 by (simp add: e x power_int_def field_simps)
    have "1 / r < 1 / 2 ^ nat (bitlen m - 1)"
      using rlo by (simp add: frac_less2)
    moreover have "(2::real) powi (expo x + 1) = 1 / 2 ^ nat (bitlen m - 1)"
    proof (cases "bitlen m = 1")
      case True then show ?thesis by (simp add: e)
    next
      case F: False
      then have "- bitlen m + 1 < 0" using b1 by simp
      moreover have "nat (bitlen m - 1) = nat (- (- bitlen m + 1))" by simp
      ultimately show ?thesis by (simp add: e power_int_def field_simps)
    qed
    ultimately have "\<bar>x\<bar> < 2 powi (expo x + 1)" by (simp add: x)
    with A show ?thesis by simp
qed

lemma expo_unique:
  assumes "2 powi e \<le> \<bar>x\<bar>" "\<bar>x\<bar> < 2 powi (e + 1)"
  shows "expo x = e"
proof -
  have pos: "0 < (2::real) powi e" by simp
  have x: "x \<noteq> 0"
  proof
    assume "x = 0"
    with assms(1) have "(2::real) powi e \<le> 0" by simp
    with pos show False by linarith
  qed
  from expo_bounds[OF x] have b: "2 powi (expo x) \<le> \<bar>x\<bar>" "\<bar>x\<bar> < 2 powi (expo x + 1)"
    by auto
  have "\<not> expo x < e"
  proof
    assume "expo x < e"
    then have "expo x + 1 \<le> e" by simp
    then have "(2::real) powi (expo x + 1) \<le> 2 powi e" by (intro power_int_increasing) auto
    with b(2) assms(1) show False by linarith
  qed
  moreover have "\<not> e < expo x"
  proof
    assume "e < expo x"
    then have "e + 1 \<le> expo x" by simp
    then have "(2::real) powi (e + 1) \<le> 2 powi (expo x)" by (intro power_int_increasing) auto
    with b(1) assms(2) show False by linarith
  qed
  ultimately show ?thesis by linarith
qed


lemma round_even_of_int [simp]: "round_even (of_int n) = n"
  by (simp add: round_even_def)

lemma round_even_close: "\<bar>of_int (round_even x) - x\<bar> \<le> 1 / 2"
proof -
  have "of_int \<lfloor>x\<rfloor> \<le> x" "x < of_int \<lfloor>x\<rfloor> + 1" by linarith+
  then show ?thesis
    by (auto simp: round_even_def Let_def)
qed

lemma round_even_eqI: "\<bar>x - of_int n\<bar> < 1 / 2 \<Longrightarrow> round_even x = n"
proof -
  assume a: "\<bar>x - of_int n\<bar> < 1 / 2"
  have "\<bar>of_int (round_even x) - x\<bar> \<le> 1 / 2" by (rule round_even_close)
  with a have "\<bar>real_of_int (round_even x) - of_int n\<bar> < 1" by linarith
  then have "\<bar>round_even x - n\<bar> < 1" by linarith
  then show ?thesis by linarith
qed

lemma scaled_round:
  fixes u :: real
  assumes "0 < u" "\<bar>x / u - of_int n\<bar> \<le> d"
  shows "\<bar>of_int n * u - x\<bar> \<le> d * u"
proof -
  have "of_int n * u - x = (of_int n - x / u) * u"
    using assms(1) by (simp add: field_simps)
  then have "\<bar>of_int n * u - x\<bar> = \<bar>of_int n - x / u\<bar> * u"
    using assms(1) by (simp add: abs_mult)
  also have "\<dots> \<le> d * u"
    using assms by (intro mult_right_mono) auto
  finally show ?thesis .
qed

lemma fl_eval_round:
  assumes "2 powi e \<le> \<bar>x\<bar>" "\<bar>x\<bar> < 2 powi (e + 1)" "- 1022 \<le> e" "e \<le> 1022"
    and n: "round_even (x / 2 powi (e - 52)) = n" and "y = of_int n * 2 powi (e - 52)"
  shows "fl x = Num y"
proof -
  have pos: "0 < (2::real) powi e" by simp
  have x: "x \<noteq> 0"
  proof
    assume "x = 0"
    with assms(1) have "(2::real) powi e \<le> 0" by simp
    with pos show False by linarith
  qed
  have e: "expo x = e" using assms(1,2) by (rule expo_unique)
  have q: "max (expo x) (- 1022) - 52 = e - 52" using assms(3) by (simp add: e)
  have u: "(2::real) powi (e - 52) \<le> 2 powi e"
    by (intro power_int_increasing) auto
  have "\<bar>x / 2 powi (e - 52) - of_int n\<bar> \<le> 1 / 2"
    using round_even_close[of "x / 2 powi (e - 52)"] by (simp add: n abs_minus_commute)
  then have "\<bar>real_of_int n * 2 powi (e - 52) - x\<bar> \<le> 1 / 2 * 2 powi (e - 52)"
    by (intro scaled_round) auto
  then have "\<bar>y - x\<bar> \<le> 2 powi e" unfolding assms(6) using u pos by linarith
  then have "\<bar>y\<bar> < 2 * 2 powi (e + 1)"
    using assms(1,2) by linarith
  also have "2 * (2::real) powi (e + 1) \<le> 2 * 2 powi 1023"
    using assms(4) by (intro mult_left_mono power_int_increasing) auto
  finally have "\<not> 2 ^ 1024 \<le> \<bar>y\<bar>" by simp
  then show ?thesis
    using x by (simp add: fl_def q n Let_def assms(6))
qed

lemma fl_evalI:
  assumes "2 powi e \<le> \<bar>x\<bar>" "\<bar>x\<bar> < 2 powi (e + 1)" "- 1022 \<le> e" "e \<le> 1022"
    and "\<bar>x / 2 powi (e - 52) - of_int n\<bar> < 1 / 2" and "y = of_int n * 2 powi (e - 52)"
  shows "fl x = Num y"
  using assms(1-4) round_even_eqI[OF assms(5)] assms(6) by (rule fl_eval_round)

lemma round_even_tie: "round_even (of_int k + 1 / 2) = (if even k then k else k + 1)"
proof -
  have "\<lfloor>real_of_int k + 1 / 2\<rfloor> = k" by linarith
  then show ?thesis by (simp add: round_even_def)
qed

lemma fl_evalI_tie:
  assumes "2 powi e \<le> \<bar>x\<bar>" "\<bar>x\<bar> < 2 powi (e + 1)" "- 1022 \<le> e" "e \<le> 1022"
    and "x / 2 powi (e - 52) = of_int k + 1 / 2" and "n = (if even k then k else k + 1)"
    and "y = of_int n * 2 powi (e - 52)"
  shows "fl x = Num y"
proof -
  have "round_even (x / 2 powi (e - 52)) = n"
    unfolding assms(5) assms(6) by (rule round_even_tie)
  with assms(1-4) show ?thesis using assms(7) by (rule fl_eval_round)
qed

lemma fl_exact:
  assumes "x = of_int n * 2 powi j" "\<bar>n\<bar> < 2 ^ 53" "- 1074 \<le> j" "\<bar>x\<bar> < 2 ^ 1024"
  shows "fl x = Num x"
proof (cases "x = 0")
  case True
  then show ?thesis by (simp add: fl_def)
next
  case False
  define q where "q = max (expo x) (- 1022) - 52"
  from expo_bounds[OF False] have b: "2 powi (expo x) \<le> \<bar>x\<bar>" by simp
  have n53: "real_of_int \<bar>n\<bar> < 2 ^ 53"
    using assms(2) by (metis of_int_less_iff of_int_numeral of_int_power)
  have "\<bar>x\<bar> = real_of_int \<bar>n\<bar> * 2 powi j" by (simp add: assms(1) abs_mult)
  also have "\<dots> < 2 ^ 53 * 2 powi j"
    using n53 by (intro mult_strict_right_mono) simp_all
  also have "\<dots> = 2 powi (53 + j)" by (simp add: power_int_add)
  finally have lt: "(2::real) powi (expo x) < 2 powi (53 + j)" using b by linarith
  have "expo x < 53 + j"
  proof (rule ccontr)
    assume "\<not> expo x < 53 + j"
    then have "(2::real) powi (53 + j) \<le> 2 powi (expo x)"
      by (intro power_int_increasing) auto
    with lt show False by linarith
  qed
  then have qj: "q \<le> j" using assms(3) by (simp add: q_def)
  have jq: "(2::real) powi j = 2 ^ nat (j - q) * 2 powi q"
  proof -
    have "(2::real) powi j = 2 powi ((j - q) + q)" by simp
    also have "\<dots> = 2 powi (j - q) * 2 powi q" by (rule power_int_add) simp
    also have "(2::real) powi (j - q) = 2 ^ nat (j - q)" using qj by (simp add: power_int_def)
    finally show ?thesis .
  qed
  have xq: "x / 2 powi q = of_int (n * 2 ^ nat (j - q))"
    by (simp add: assms(1) jq)
  have r: "round_even (x / 2 powi q) = n * 2 ^ nat (j - q)"
    unfolding xq by (rule round_even_of_int)
  have y: "of_int (round_even (x / 2 powi q)) * 2 powi q = x"
    unfolding r by (simp add: assms(1) jq)
  show ?thesis
    using False assms(4) by (simp add: fl_def q_def[symmetric] Let_def y)
qed

lemma five_ninths: "js_div (Num 5) (Num 9) = Num (2501999792983609 / 4503599627370496)"
  by (simp, rule fl_evalI[where e="-1" and n="5003999585967218"], simp_all)

lemma c_0_sub: "js_sub (Num 0) (Num 32) = Num (- 32)"
  by (simp, rule fl_evalI[where e="5" and n="-4503599627370496"], simp_all)

lemma c_0_mul: "js_mul (Num (2501999792983609 / 4503599627370496)) (Num (- 32)) = Num (- (2501999792983609 / 140737488355328))"
  by (simp, rule fl_evalI[where e="4" and n="-5003999585967218"], simp_all)

lemma c_0_dbl: "js_mul (Num (- (2501999792983609 / 140737488355328))) (Num 2) = Num (- (2501999792983609 / 70368744177664))"
  by (simp, rule fl_evalI[where e="5" and n="-5003999585967218"], simp_all)

lemma c_0_round: "Math_round (Num (- (2501999792983609 / 70368744177664))) = Num (- 36)"
  by (simp add: round_def)

lemma c_0_half: "js_div (Num (- 36)) (Num 2) = Num (- 18)"
  by (simp, rule fl_evalI[where e="4" and n="-5066549580791808"], simp_all)

lemma fahrenheit_to_celsius_0: "fahrenheit_to_celsius (Num 0) = Num (- 18)"
  by (simp only: five_ninths c_0_sub c_0_mul c_0_dbl c_0_round c_0_half)

lemma c_32_sub: "js_sub (Num 32) (Num 32) = Num 0"
  by (simp add: fl_def)

lemma c_32_mul: "js_mul (Num (2501999792983609 / 4503599627370496)) (Num 0) = Num 0"
  by (simp add: fl_def)

lemma c_32_dbl: "js_mul (Num 0) (Num 2) = Num 0"
  by (simp add: fl_def)

lemma c_32_round: "Math_round (Num 0) = Num 0"
  by (simp add: round_def)

lemma c_32_half: "js_div (Num 0) (Num 2) = Num 0"
  by (simp add: fl_def)

lemma fahrenheit_to_celsius_32: "fahrenheit_to_celsius (Num 32) = Num 0"
  by (simp only: five_ninths c_32_sub c_32_mul c_32_dbl c_32_round c_32_half)

lemma c_212_sub: "js_sub (Num 212) (Num 32) = Num 180"
  by (simp, rule fl_evalI[where e="7" and n="6333186975989760"], simp_all)

lemma c_212_mul: "js_mul (Num (2501999792983609 / 4503599627370496)) (Num 180) = Num 100"
  by (simp, rule fl_evalI[where e="6" and n="7036874417766400"], simp_all)

lemma c_212_dbl: "js_mul (Num 100) (Num 2) = Num 200"
  by (simp, rule fl_evalI[where e="7" and n="7036874417766400"], simp_all)

lemma c_212_round: "Math_round (Num 200) = Num 200"
  by (simp add: round_def)

lemma c_212_half: "js_div (Num 200) (Num 2) = Num 100"
  by (simp, rule fl_evalI[where e="6" and n="7036874417766400"], simp_all)

lemma fahrenheit_to_celsius_212: "fahrenheit_to_celsius (Num 212) = Num 100"
  by (simp only: five_ninths c_212_sub c_212_mul c_212_dbl c_212_round c_212_half)

lemma c_68_sub: "js_sub (Num 68) (Num 32) = Num 36"
  by (simp, rule fl_evalI[where e="5" and n="5066549580791808"], simp_all)

lemma c_68_mul: "js_mul (Num (2501999792983609 / 4503599627370496)) (Num 36) = Num 20"
  by (simp, rule fl_evalI[where e="4" and n="5629499534213120"], simp_all)

lemma c_68_dbl: "js_mul (Num 20) (Num 2) = Num 40"
  by (simp, rule fl_evalI[where e="5" and n="5629499534213120"], simp_all)

lemma c_68_round: "Math_round (Num 40) = Num 40"
  by (simp add: round_def)

lemma c_68_half: "js_div (Num 40) (Num 2) = Num 20"
  by (simp, rule fl_evalI[where e="4" and n="5629499534213120"], simp_all)

lemma fahrenheit_to_celsius_68: "fahrenheit_to_celsius (Num 68) = Num 20"
  by (simp only: five_ninths c_68_sub c_68_mul c_68_dbl c_68_round c_68_half)

lemma c_72_05_sub: "js_sub (Num (5070068018000691 / 70368744177664)) (Num 32) = Num (2818268204315443 / 70368744177664)"
  by (simp, rule fl_evalI[where e="5" and n="5636536408630886"], simp_all)

lemma c_72_05_mul: "js_mul (Num (2501999792983609 / 4503599627370496)) (Num (2818268204315443 / 70368744177664)) = Num (89 / 4)"
  by (simp, rule fl_evalI[where e="4" and n="6262818231812096"], simp_all)

lemma c_72_05_dbl: "js_mul (Num (89 / 4)) (Num 2) = Num (89 / 2)"
  by (simp, rule fl_evalI[where e="5" and n="6262818231812096"], simp_all)

lemma c_72_05_round: "Math_round (Num (89 / 2)) = Num 45"
  by (simp add: round_def)

lemma c_72_05_half: "js_div (Num 45) (Num 2) = Num (45 / 2)"
  by (simp, rule fl_evalI[where e="4" and n="6333186975989760"], simp_all)

lemma fahrenheit_to_celsius_72_05: "fahrenheit_to_celsius (Num (5070068018000691 / 70368744177664)) = Num (45 / 2)"
  by (simp only: five_ninths c_72_05_sub c_72_05_mul c_72_05_dbl c_72_05_round c_72_05_half)

lemma c_big_sub: "js_sub (Num 3786315724416254) (Num 32) = Num 3786315724416222"
  by (simp, rule fl_evalI[where e="51" and n="7572631448832444"], simp_all)

lemma c_big_mul: "js_mul (Num (2501999792983609 / 4503599627370496)) (Num 3786315724416222) = Num 2103508735786790"
  by (simp, rule fl_evalI[where e="50" and n="8414034943147160"], simp_all)

lemma c_big_dbl: "js_mul (Num 2103508735786790) (Num 2) = Num 4207017471573580"
  by (simp, rule fl_evalI[where e="51" and n="8414034943147160"], simp_all)

lemma c_big_round: "Math_round (Num 4207017471573580) = Num 4207017471573580"
  by (simp add: round_def)

lemma c_big_half: "js_div (Num 4207017471573580) (Num 2) = Num 2103508735786790"
  by (simp, rule fl_evalI[where e="50" and n="8414034943147160"], simp_all)

lemma fahrenheit_to_celsius_big: "fahrenheit_to_celsius (Num 3786315724416254) = Num 2103508735786790"
  by (simp only: five_ninths c_big_sub c_big_mul c_big_dbl c_big_round c_big_half)

lemma c_big1_sub: "js_sub (Num 3786315724416255) (Num 32) = Num 3786315724416223"
  by (simp, rule fl_evalI[where e="51" and n="7572631448832446"], simp_all)

lemma c_big1_mul: "js_mul (Num (2501999792983609 / 4503599627370496)) (Num 3786315724416223) = Num (8414034943147163 / 4)"
  by (simp, rule fl_evalI[where e="50" and n="8414034943147163"], simp_all)

lemma c_big1_dbl: "js_mul (Num (8414034943147163 / 4)) (Num 2) = Num (8414034943147163 / 2)"
  by (simp, rule fl_evalI[where e="51" and n="8414034943147163"], simp_all)

lemma c_big1_round: "Math_round (Num (8414034943147163 / 2)) = Num 4207017471573582"
  by (simp add: round_def)

lemma c_big1_half: "js_div (Num 4207017471573582) (Num 2) = Num 2103508735786791"
  by (simp, rule fl_evalI[where e="50" and n="8414034943147164"], simp_all)

lemma fahrenheit_to_celsius_big1: "fahrenheit_to_celsius (Num 3786315724416255) = Num 2103508735786791"
  by (simp only: five_ninths c_big1_sub c_big1_mul c_big1_dbl c_big1_round c_big1_half)

lemma c_36_5_sub: "js_sub (Num (73 / 2)) (Num 32) = Num (9 / 2)"
  by (simp, rule fl_evalI[where e="2" and n="5066549580791808"], simp_all)

lemma c_36_5_mul: "js_mul (Num (2501999792983609 / 4503599627370496)) (Num (9 / 2)) = Num (5 / 2)"
  by (simp, rule fl_evalI[where e="1" and n="5629499534213120"], simp_all)

lemma c_36_5_dbl: "js_mul (Num (5 / 2)) (Num 2) = Num 5"
  by (simp, rule fl_evalI[where e="2" and n="5629499534213120"], simp_all)

lemma c_36_5_round: "Math_round (Num 5) = Num 5"
  by (simp add: round_def)

lemma c_36_5_half: "js_div (Num 5) (Num 2) = Num (5 / 2)"
  by (simp, rule fl_evalI[where e="1" and n="5629499534213120"], simp_all)

lemma fahrenheit_to_celsius_36_5: "fahrenheit_to_celsius (Num (73 / 2)) = Num (5 / 2)"
  by (simp only: five_ninths c_36_5_sub c_36_5_mul c_36_5_dbl c_36_5_round c_36_5_half)

lemma f_0_mul: "js_mul (Num 0) (Num 9) = Num 0"
  by (simp add: fl_def)

lemma f_0_div: "js_div (Num 0) (Num 5) = Num 0"
  by (simp add: fl_def)

lemma f_0_add: "js_add (Num 0) (Num 32) = Num 32"
  by (simp, rule fl_evalI[where e="5" and n="4503599627370496"], simp_all)

lemma f_0_round: "Math_round (Num 32) = Num 32"
  by (simp add: round_def)

lemma celsius_to_fahrenheit_0: "celsius_to_fahrenheit (Num 0) = Num 32"
  by (simp only: f_0_mul f_0_div f_0_add f_0_round)

lemma f_20_mul: "js_mul (Num 20) (Num 9) = Num 180"
  by (simp, rule fl_evalI[where e="7" and n="6333186975989760"], simp_all)

lemma f_20_div: "js_div (Num 180) (Num 5) = Num 36"
  by (simp, rule fl_evalI[where e="5" and n="5066549580791808"], simp_all)

lemma f_20_add: "js_add (Num 36) (Num 32) = Num 68"
  by (simp, rule fl_evalI[where e="6" and n="4785074604081152"], simp_all)

lemma f_20_round: "Math_round (Num 68) = Num 68"
  by (simp add: round_def)

lemma celsius_to_fahrenheit_20: "celsius_to_fahrenheit (Num 20) = Num 68"
  by (simp only: f_20_mul f_20_div f_20_add f_20_round)

lemma f_24_mul: "js_mul (Num 24) (Num 9) = Num 216"
  by (simp, rule fl_evalI[where e="7" and n="7599824371187712"], simp_all)

lemma f_24_div: "js_div (Num 216) (Num 5) = Num (3039929748475085 / 70368744177664)"
  by (simp, rule fl_evalI[where e="5" and n="6079859496950170"], simp_all)

lemma f_24_add: "js_add (Num (3039929748475085 / 70368744177664)) (Num 32) = Num (5291729562160333 / 70368744177664)"
  by (simp, rule fl_evalI[where e="6" and n="5291729562160333"], simp_all)

lemma f_24_round: "Math_round (Num (5291729562160333 / 70368744177664)) = Num 75"
  by (simp add: round_def)

lemma celsius_to_fahrenheit_24: "celsius_to_fahrenheit (Num 24) = Num 75"
  by (simp only: f_24_mul f_24_div f_24_add f_24_round)

lemma f_big_mul: "js_mul (Num 2103508735786790) (Num 9) = Num 18931578622081112"
  by (simp, rule fl_evalI_tie[where e="54" and k="4732894655520277" and n="4732894655520278"], simp_all)

lemma f_big_div: "js_div (Num 18931578622081112) (Num 5) = Num (7572631448832445 / 2)"
  by (simp, rule fl_evalI[where e="51" and n="7572631448832445"], simp_all)

lemma f_big_add: "js_add (Num (7572631448832445 / 2)) (Num 32) = Num (7572631448832509 / 2)"
  by (simp, rule fl_evalI[where e="51" and n="7572631448832509"], simp_all)

lemma f_big_round: "Math_round (Num (7572631448832509 / 2)) = Num 3786315724416255"
  by (simp add: round_def)

lemma celsius_to_fahrenheit_big: "celsius_to_fahrenheit (Num 2103508735786790) = Num 3786315724416255"
  by (simp only: f_big_mul f_big_div f_big_add f_big_round)

lemma f_2_5_mul: "js_mul (Num (5629499534213119 / 2251799813685248)) (Num 9) = Num (6333186975989759 / 281474976710656)"
  by (simp, rule fl_evalI[where e="4" and n="6333186975989759"], simp_all)

lemma f_2_5_div: "js_div (Num (6333186975989759 / 281474976710656)) (Num 5) = Num (5066549580791807 / 1125899906842624)"
  by (simp, rule fl_evalI[where e="2" and n="5066549580791807"], simp_all)

lemma f_2_5_add: "js_add (Num (5066549580791807 / 1125899906842624)) (Num 32) = Num (73 / 2)"
  by (simp, rule fl_evalI[where e="5" and n="5136918324969472"], simp_all)

lemma f_2_5_round: "Math_round (Num (73 / 2)) = Num 37"
  by (simp add: round_def)

lemma celsius_to_fahrenheit_2_5: "celsius_to_fahrenheit (Num (5629499534213119 / 2251799813685248)) = Num 37"
  by (simp only: f_2_5_mul f_2_5_div f_2_5_add f_2_5_round)

lemma f_h2_5_mul: "js_mul (Num (5 / 2)) (Num 9) = Num (45 / 2)"
  by (simp, rule fl_evalI[where e="4" and n="6333186975989760"], simp_all)

lemma f_h2_5_div: "js_div (Num (45 / 2)) (Num 5) = Num (9 / 2)"
  by (simp, rule fl_evalI[where e="2" and n="5066549580791808"], simp_all)

lemma f_h2_5_add: "js_add (Num (9 / 2)) (Num 32) = Num (73 / 2)"
  by (simp, rule fl_evalI[where e="5" and n="5136918324969472"], simp_all)

lemma f_h2_5_round: "Math_round (Num (73 / 2)) = Num 37"
  by (simp add: round_def)

lemma celsius_to_fahrenheit_h2_5: "celsius_to_fahrenheit (Num (5 / 2)) = Num 37"
  by (simp only: f_h2_5_mul f_h2_5_div f_h2_5_add f_h2_5_round)

lemma fl_error:
  assumes "\<bar>x\<bar> < 2 ^ 1023"
  shows "\<exists>y. fl x = Num y \<and> \<bar>y - x\<bar> \<le> \<bar>x\<bar> / 2 ^ 53 + 1 / 2 ^ 1075"
proof (cases "x = 0")
  case True
  then show ?thesis by (simp add: fl_def)
next
  case False
  define q where "q = max (expo x) (- 1022) - 52"
  define u :: real where "u = 2 powi q"
  define y where "y = of_int (round_even (x / u)) * u"
  have u0: "0 < u" by (simp add: u_def)
  from expo_bounds[OF False] have b: "2 powi (expo x) \<le> \<bar>x\<bar>" by simp
  have "\<bar>x / u - of_int (round_even (x / u))\<bar> \<le> 1 / 2"
    using round_even_close[of "x / u"] by (simp add: abs_minus_commute)
  with u0 have d: "\<bar>y - x\<bar> \<le> 1 / 2 * u" unfolding y_def by (rule scaled_round)
  have ub: "u \<le> \<bar>x\<bar> / 2 ^ 52 + 1 / 2 ^ 1074"
  proof (cases "- 1022 \<le> expo x")
    case True
    then have "q = expo x - 52" by (simp add: q_def)
    then have "u = 2 powi (expo x) / 2 ^ 52" by (simp add: u_def power_int_diff)
    also have "\<dots> \<le> \<bar>x\<bar> / 2 ^ 52" using b by (simp add: divide_right_mono)
    finally show ?thesis by simp
  next
    case False
    then have "q = - 1074" by (simp add: q_def)
    then have "u = 1 / 2 ^ 1074" by (simp add: u_def power_int_minus field_simps)
    then show ?thesis by simp
  qed
  have e: "\<bar>y - x\<bar> \<le> \<bar>x\<bar> / 2 ^ 53 + 1 / 2 ^ 1075"
    using d ub by simp
  have "\<bar>y\<bar> \<le> \<bar>x\<bar> + \<bar>x\<bar> / 2 ^ 53 + 1 / 2 ^ 1075" using e by linarith
  also have "\<dots> < 2 ^ 1024" using assms by simp
  finally have "\<not> 2 ^ 1024 \<le> \<bar>y\<bar>" by simp
  then have "fl x = Num y"
    using False by (simp add: fl_def Let_def q_def[symmetric] u_def[symmetric] y_def[symmetric])
  with e show ?thesis by blast
qed

lemma fl_small:
  assumes "\<bar>x\<bar> \<le> 2 ^ 44"
  shows "\<exists>y. fl x = Num y \<and> \<bar>y - x\<bar> \<le> 1 / 500"
proof -
  have "\<bar>x\<bar> < 2 ^ 1023" using assms by simp
  from fl_error[OF this] obtain y where y: "fl x = Num y" "\<bar>y - x\<bar> \<le> \<bar>x\<bar> / 2 ^ 53 + 1 / 2 ^ 1075"
    by blast
  have "\<bar>x\<bar> / 2 ^ 53 + 1 / 2 ^ 1075 \<le> (1 / 500 :: real)" using assms by simp
  with y(2) have "\<bar>y - x\<bar> \<le> 1 / 500" by (rule order_trans)
  with y(1) show ?thesis by blast
qed

lemma fl_half_int:
  assumes "\<bar>m\<bar> < 2 ^ 53"
  shows "fl (of_int m / 2) = Num (of_int m / 2)"
proof (rule fl_exact[where n = m and j = "- 1"])
  show "real_of_int m / 2 = real_of_int m * 2 powi - 1" by simp
  show "\<bar>m\<bar> < 2 ^ 53" by (rule assms)
  show "- 1074 \<le> (- 1 :: int)" by simp
  have "real_of_int \<bar>m\<bar> < 2 ^ 53"
    using assms by (metis of_int_less_iff of_int_numeral of_int_power)
  then show "\<bar>real_of_int m / 2\<bar> < 2 ^ 1024" by simp
qed

lemma fl_half_grid:
  assumes "fl (of_int m / 2) = Num r"
  shows "\<exists>k::int. r = of_int k / 2"
proof (cases "m = 0")
  case True
  with assms have "r = 0" by (simp add: fl_def)
  then have "r = of_int 0 / 2" by simp
  then show ?thesis by blast
next
  case False
  define x :: real where "x = of_int m / 2"
  define q where "q = max (expo x) (- 1022) - 52"
  define n where "n = round_even (x / 2 powi q)"
  have x0: "x \<noteq> 0" using False by (simp add: x_def)
  define y :: real where "y = of_int n * 2 powi q"
  have "fl x = (if 2 ^ 1024 \<le> \<bar>y\<bar> then (if 0 < x then PosInf else NegInf) else Num y)"
    using x0 by (simp add: fl_def Let_def q_def[symmetric] n_def[symmetric] y_def[symmetric])
  with assms have "r = y"
    by (simp add: x_def[symmetric] split: if_splits)
  then have r: "r = of_int n * 2 powi q" by (simp add: y_def)
  show ?thesis
  proof (cases "q < 0")
    case True
    then have p: "(2::real) powi q = 1 / 2 ^ nat (- q)" by (simp add: power_int_def field_simps)
    have "nat (- q) = Suc (nat (- q - 1))" using True by simp
    then have "(2::real) ^ nat (- q) = 2 * 2 ^ nat (- q - 1)" by simp
    then have "x / 2 powi q = of_int (m * 2 ^ nat (- q - 1))"
      by (simp add: x_def p)
    then have "n = m * 2 ^ nat (- q - 1)" unfolding n_def by (simp only: round_even_of_int)
    then have "r = of_int m * 2 ^ nat (- q - 1) * (1 / 2 ^ nat (- q))"
      by (simp add: r p)
    also have "\<dots> = of_int m / 2"
      using \<open>(2::real) ^ nat (- q) = 2 * 2 ^ nat (- q - 1)\<close> by simp
    finally show ?thesis by blast
  next
    case False
    then have "(2::real) powi q = 2 ^ nat q" by (simp add: power_int_def)
    then have "r = of_int (2 * n * 2 ^ nat q) / 2" by (simp add: r)
    then show ?thesis by blast
  qed
qed

lemma fahrenheit_to_celsius_grid:
  assumes "fahrenheit_to_celsius v = Num r"
  shows "\<exists>k::int. r = of_int k / 2"
proof (cases "js_mul (js_mul (js_div (Num 5) (Num 9)) (js_sub v (Num 32))) (Num 2)")
  case (Num a)
  with assms have "fl (of_int (round a) / 2) = Num r" by simp
  then show ?thesis by (rule fl_half_grid)
qed (use assms in simp_all)

lemma celsius_to_fahrenheit_grid:
  assumes "celsius_to_fahrenheit v = Num r"
  shows "\<exists>k::int. r = of_int k"
proof (cases "js_add (js_div (js_mul v (Num 9)) (Num 5)) (Num 32)")
  case (Num a)
  with assms have "r = of_int (round a)" by simp
  then show ?thesis by blast
qed (use assms in simp_all)

lemma pows:
  "(2::real) ^ 40 = 1099511627776" "(2::real) ^ 41 = 2199023255552"
  "(2::real) ^ 44 = 17592186044416" "(2::real) ^ 53 = 9007199254740992"
  by simp_all

lemma fahrenheit_to_celsius_pre:
  assumes "\<bar>t\<bar> \<le> 2 ^ 41"
  shows "\<exists>a. js_mul (js_mul (js_div (Num 5) (Num 9)) (js_sub (Num t) (Num 32))) (Num 2) = Num a \<and>
             \<bar>a - (10 / 9 * t - 320 / 9)\<bar> \<le> 1 / 64"
proof -
  have "\<bar>t - 32\<bar> \<le> 2 ^ 44" using assms unfolding pows by linarith
  from fl_small[OF this] obtain a2 where a2: "fl (t - 32) = Num a2" "\<bar>a2 - (t - 32)\<bar> \<le> 1 / 500"
    by blast
  have b2: "\<bar>a2\<bar> \<le> 2 ^ 41 + 33" using a2(2) assms unfolding pows by linarith
  have "\<bar>2501999792983609 / 4503599627370496 * a2\<bar> = 2501999792983609 / 4503599627370496 * \<bar>a2\<bar>"
    by (simp add: abs_mult)
  also have "\<dots> \<le> 2 ^ 44" using b2 unfolding pows by linarith
  finally have "\<bar>2501999792983609 / 4503599627370496 * a2\<bar> \<le> 2 ^ 44" .
  from fl_small[OF this] obtain a3 where
    a3: "fl (2501999792983609 / 4503599627370496 * a2) = Num a3"
        "\<bar>a3 - 2501999792983609 / 4503599627370496 * a2\<bar> \<le> 1 / 500"
    by blast
  have "\<bar>a3 * 2\<bar> \<le> 2 ^ 44" using a3(2) b2 unfolding pows by linarith
  from fl_small[OF this] obtain a4 where a4: "fl (a3 * 2) = Num a4" "\<bar>a4 - a3 * 2\<bar> \<le> 1 / 500"
    by blast
  have "js_mul (js_mul (js_div (Num 5) (Num 9)) (js_sub (Num t) (Num 32))) (Num 2) = Num a4"
    by (simp only: five_ninths js_sub.simps js_mul.simps a2 a3 a4)
  moreover have "\<bar>a4 - (10 / 9 * t - 320 / 9)\<bar> \<le> 1 / 64"
    using a2(2) a3(2) a4(2) assms unfolding pows by linarith
  ultimately show ?thesis by blast
qed

lemma fahrenheit_to_celsius_near:
  assumes "\<bar>t\<bar> \<le> 2 ^ 41"
  shows "\<exists>m::int. fahrenheit_to_celsius (Num t) = Num (of_int m / 2) \<and>
           \<bar>of_int m - (10 / 9 * t - 320 / 9)\<bar> \<le> 1 / 2 + 1 / 64"
proof -
  from fahrenheit_to_celsius_pre[OF assms] obtain a where
    a: "js_mul (js_mul (js_div (Num 5) (Num 9)) (js_sub (Num t) (Num 32))) (Num 2) = Num a"
       "\<bar>a - (10 / 9 * t - 320 / 9)\<bar> \<le> 1 / 64"
    by blast
  define m where "m = round a"
  have ma: "\<bar>of_int m - a\<bar> \<le> 1 / 2" unfolding m_def by (rule of_int_round_abs_le)
  have e: "\<bar>of_int m - (10 / 9 * t - 320 / 9)\<bar> \<le> 1 / 2 + 1 / 64" using ma a(2) by linarith
  have "\<bar>real_of_int m\<bar> < 2 ^ 53" using e assms unfolding pows by linarith
  then have "real_of_int \<bar>m\<bar> < 2 ^ 53" by simp
  then have m53: "\<bar>m\<bar> < 2 ^ 53"
    by (metis of_int_less_iff of_int_numeral of_int_power)
  have "fahrenheit_to_celsius (Num t) = fl (of_int m / 2)"
    by (simp only: a(1) Math_round.simps m_def) simp
  also have "\<dots> = Num (of_int m / 2)" using m53 by (rule fl_half_int)
  finally show ?thesis using e by blast
qed

lemma celsius_to_fahrenheit_near:
  assumes "\<bar>c\<bar> \<le> 2 ^ 40"
  shows "\<exists>f::int. celsius_to_fahrenheit (Num c) = Num (of_int f) \<and>
           \<bar>of_int f - (c * 9 / 5 + 32)\<bar> \<le> 1 / 2 + 1 / 128"
proof -
  have "\<bar>c * 9\<bar> \<le> 2 ^ 44" using assms unfolding pows by linarith
  from fl_small[OF this] obtain b1 where b1: "fl (c * 9) = Num b1" "\<bar>b1 - c * 9\<bar> \<le> 1 / 500"
    by blast
  have "\<bar>b1 / 5\<bar> \<le> 2 ^ 44" using b1(2) assms unfolding pows by linarith
  from fl_small[OF this] obtain b2 where b2: "fl (b1 / 5) = Num b2" "\<bar>b2 - b1 / 5\<bar> \<le> 1 / 500"
    by blast
  have "\<bar>b2 + 32\<bar> \<le> 2 ^ 44" using b2(2) b1(2) assms unfolding pows by linarith
  from fl_small[OF this] obtain b3 where b3: "fl (b2 + 32) = Num b3" "\<bar>b3 - (b2 + 32)\<bar> \<le> 1 / 500"
    by blast
  define f where "f = round b3"
  have fb: "\<bar>of_int f - b3\<bar> \<le> 1 / 2" unfolding f_def by (rule of_int_round_abs_le)
  have "js_add (js_div (js_mul (Num c) (Num 9)) (Num 5)) (Num 32) = Num b3"
    by (simp add: b1 b2 b3)
  then have "celsius_to_fahrenheit (Num c) = Num (of_int f)" by (simp add: f_def)
  moreover have "\<bar>of_int f - (c * 9 / 5 + 32)\<bar> \<le> 1 / 2 + 1 / 128"
    using fb b1(2) b2(2) b3(2) by linarith
  ultimately show ?thesis by blast
qed

lemma round_trip_near:
  assumes "\<bar>v\<bar> \<le> 2 ^ 40"
  shows "\<exists>a b. fahrenheit_to_celsius (Num v) = Num a \<and>
           fahrenheit_to_celsius (celsius_to_fahrenheit (fahrenheit_to_celsius (Num v))) = Num b \<and>
           \<bar>b - a\<bar> \<le> 1 / 2"
proof -
  have "\<bar>v\<bar> \<le> 2 ^ 41" using assms unfolding pows by linarith
  from fahrenheit_to_celsius_near[OF this] obtain k :: int where
    kk: "fahrenheit_to_celsius (Num v) = Num (real_of_int k / 2) \<and>
       \<bar>real_of_int k - (10 / 9 * v - 320 / 9)\<bar> \<le> 1 / 2 + 1 / 64" ..
  have k1: "fahrenheit_to_celsius (Num v) = Num (real_of_int k / 2)" using kk by (rule conjunct1)
  have k2: "\<bar>real_of_int k - (10 / 9 * v - 320 / 9)\<bar> \<le> 1 / 2 + 1 / 64" using kk by (rule conjunct2)
  have "\<bar>real_of_int k / 2\<bar> \<le> 2 ^ 40" using k2 assms unfolding pows by linarith
  from celsius_to_fahrenheit_near[OF this] obtain f :: int where
    ff: "celsius_to_fahrenheit (Num (real_of_int k / 2)) = Num (real_of_int f) \<and>
       \<bar>real_of_int f - (real_of_int k / 2 * 9 / 5 + 32)\<bar> \<le> 1 / 2 + 1 / 128" ..
  have f1: "celsius_to_fahrenheit (Num (real_of_int k / 2)) = Num (real_of_int f)" using ff by (rule conjunct1)
  have f2: "\<bar>real_of_int f - (real_of_int k / 2 * 9 / 5 + 32)\<bar> \<le> 1 / 2 + 1 / 128" using ff by (rule conjunct2)
  have "\<bar>real_of_int f\<bar> \<le> 2 ^ 41" using f2 k2 assms unfolding pows by linarith
  from fahrenheit_to_celsius_near[OF this] obtain k' :: int where
    kk': "fahrenheit_to_celsius (Num (real_of_int f)) = Num (real_of_int k' / 2) \<and>
       \<bar>real_of_int k' - (10 / 9 * real_of_int f - 320 / 9)\<bar> \<le> 1 / 2 + 1 / 64" ..
  have k'1: "fahrenheit_to_celsius (Num (real_of_int f)) = Num (real_of_int k' / 2)" using kk' by (rule conjunct1)
  have k'2: "\<bar>real_of_int k' - (10 / 9 * real_of_int f - 320 / 9)\<bar> \<le> 1 / 2 + 1 / 64" using kk' by (rule conjunct2)
  have "\<bar>real_of_int k' - real_of_int k\<bar> < 2" using k'2 f2 by linarith
  then have "\<bar>k' - k\<bar> < 2" by linarith
  then have "\<bar>k' - k\<bar> \<le> 1" by linarith
  then have "\<bar>real_of_int k' - real_of_int k\<bar> \<le> 1" by linarith
  then have d: "\<bar>real_of_int k' / 2 - real_of_int k / 2\<bar> \<le> 1 / 2" by linarith
  have rt: "fahrenheit_to_celsius (celsius_to_fahrenheit (fahrenheit_to_celsius (Num v))) = Num (real_of_int k' / 2)"
    by (simp only: k1 f1 k'1)
  show ?thesis
    by (intro exI[of _ "real_of_int k / 2"] exI[of _ "real_of_int k' / 2"] conjI k1 rt d)
qed

lemma c_37_sub: "js_sub (Num 37) (Num 32) = Num 5"
  by (simp, rule fl_evalI[where e="2" and n="5629499534213120"], simp_all)

lemma c_37_mul: "js_mul (Num (2501999792983609 / 4503599627370496)) (Num 5) = Num (3127499741229511 / 1125899906842624)"
  by (simp, rule fl_evalI_tie[where e="1" and k="6254999482459022" and n="6254999482459022"], simp_all)

lemma c_37_dbl: "js_mul (Num (3127499741229511 / 1125899906842624)) (Num 2) = Num (3127499741229511 / 562949953421312)"
  by (simp, rule fl_evalI[where e="2" and n="6254999482459022"], simp_all)

lemma c_37_round: "Math_round (Num (3127499741229511 / 562949953421312)) = Num 6"
  by (simp add: round_def)

lemma c_37_half: "js_div (Num 6) (Num 2) = Num 3"
  by (simp, rule fl_evalI[where e="1" and n="6755399441055744"], simp_all)

lemma fahrenheit_to_celsius_37: "fahrenheit_to_celsius (Num 37) = Num 3"
  by (simp only: five_ninths c_37_sub c_37_mul c_37_dbl c_37_round c_37_half)

lemma toCelsius_celsius: "TemperatureDisplayUnits s = CELSIUS \<Longrightarrow> toCelsius s v = v"
  by (simp add: toCelsius_def CELSIUS_def)

lemma toFahrenheit_celsius: "TemperatureDisplayUnits s = CELSIUS \<Longrightarrow> toFahrenheit s v = v"
  by (simp add: toFahrenheit_def CELSIUS_def)

lemma toCelsius_fahrenheit:
  "TemperatureDisplayUnits s \<noteq> CELSIUS \<Longrightarrow> toCelsius s v = fahrenheit_to_celsius v"
  by (simp add: toCelsius_def CELSIUS_def)

lemma toFahrenheit_fahrenheit:
  "TemperatureDisplayUnits s \<noteq> CELSIUS \<Longrightarrow> toFahrenheit s v = celsius_to_fahrenheit v"
  by (simp add: toFahrenheit_def CELSIUS_def)

lemma toCelsius_grid:
  assumes "TemperatureDisplayUnits s \<noteq> CELSIUS" and "toCelsius s v = Num r"
  shows "\<exists>k::int. r = of_int k / 2"
proof -
  have "fahrenheit_to_celsius v = Num r"
    using assms(2) unfolding toCelsius_fahrenheit[OF assms(1)] .
  then show ?thesis by (rule fahrenheit_to_celsius_grid)
qed

lemma toFahrenheit_grid:
  assumes "TemperatureDisplayUnits s \<noteq> CELSIUS" and "toFahrenheit s v = Num r"
  shows "\<exists>k::int. r = of_int k"
proof -
  have "celsius_to_fahrenheit v = Num r"
    using assms(2) unfolding toFahrenheit_fahrenheit[OF assms(1)] .
  then show ?thesis by (rule celsius_to_fahrenheit_grid)
qed

lemma toCelsius_near:
  assumes u: "TemperatureDisplayUnits s \<noteq> CELSIUS" and b: "\<bar>x\<bar> \<le> 2 ^ 40"
  shows "\<exists>k::int. toCelsius s (Num x) = Num (of_int k / 2) \<and>
           \<bar>of_int k / 2 - 5 / 9 * (x - 32)\<bar> \<le> 1 / 4 + 1 / 128"
proof -
  have "\<bar>x\<bar> \<le> 2 ^ 41" using b unfolding pows by linarith
  from fahrenheit_to_celsius_near[OF this] obtain m :: int where
    mm: "fahrenheit_to_celsius (Num x) = Num (real_of_int m / 2) \<and>
         \<bar>real_of_int m - (10 / 9 * x - 320 / 9)\<bar> \<le> 1 / 2 + 1 / 64" ..
  have e: "5 / 9 * (x - 32) = 5 / 9 * x - 160 / 9" by (simp add: right_diff_distrib)
  have c: "toCelsius s (Num x) = Num (real_of_int m / 2)"
    by (simp only: toCelsius_fahrenheit[OF u] conjunct1[OF mm])
  have d: "\<bar>real_of_int m / 2 - 5 / 9 * (x - 32)\<bar> \<le> 1 / 4 + 1 / 128"
    unfolding e using conjunct2[OF mm] by linarith
  show ?thesis by (intro exI[of _ m] conjI c d)
qed

lemma toFahrenheit_near:
  assumes u: "TemperatureDisplayUnits s \<noteq> CELSIUS" and b: "\<bar>x\<bar> \<le> 2 ^ 40"
  shows "\<exists>k::int. toFahrenheit s (Num x) = Num (of_int k) \<and>
           \<bar>of_int k - (x * 9 / 5 + 32)\<bar> \<le> 1 / 2 + 1 / 128"
proof -
  from celsius_to_fahrenheit_near[OF b] obtain f :: int where
    ff: "celsius_to_fahrenheit (Num x) = Num (real_of_int f) \<and>
         \<bar>real_of_int f - (x * 9 / 5 + 32)\<bar> \<le> 1 / 2 + 1 / 128" ..
  have c: "toFahrenheit s (Num x) = Num (real_of_int f)"
    by (simp only: toFahrenheit_fahrenheit[OF u] conjunct1[OF ff])
  show ?thesis by (intro exI[of _ f] conjI c conjunct2[OF ff])
qed

lemma example_fahrenheit: "TemperatureDisplayUnits example_state \<noteq> CELSIUS"
  by (simp add: example_state_def CELSIUS_def FAHRENHEIT_def)

lemma trace_emit [simp]: "trace (emit e s) = trace s @ [e]"
  by (simp add: emit_def)

lemma emitted_same [simp]: "emitted s s = []"
  by (simp add: emitted_def)

lemma parse_fan_trace: "trace (snd (parse_fan s)) = trace s"
  by (simp add: parse_fan_def parse_fan_mode_def split: option.splits)

lemma parse_units_trace [simp]: "trace (parse_units s) = trace s"
  by (simp add: parse_units_def Let_def)

lemma parse_indoor_trace [simp]: "trace (parse_indoor s) = trace s"
  by (simp add: parse_indoor_def)

lemma parse_thresholds_trace [simp]: "trace (parse_thresholds s) = trace s"
  by (simp add: parse_thresholds_def Let_def)

lemma parse_states_trace [simp]: "trace (parse_states s) = trace s"
  by (simp add: parse_states_def)

lemma parse_target_temperature_trace [simp]: "trace (parse_target_temperature s) = trace s"
  by (simp add: parse_target_temperature_def)

lemma parseStatus_trace: "trace (snd (parseStatus s)) = trace s"
  by (simp add: parseStatus_def parse_fan_trace)

lemma apiError_trace: "trace (apiError s) = trace s @ error_broadcast s"
  by (simp add: apiError_def owned_characteristics_def)

lemma refresh_catch_trace: "trace (refresh_catch s) = trace s @ RefreshAccessToken # error_broadcast s"
  by (simp add: refresh_catch_def apiError_def owned_characteristics_def emit_def fan_enabled_def)

lemma refresh_parse_trace: "\<exists>es. trace (refresh_parse s) = trace s @ es \<and> (\<forall>e\<in>set es. \<not> is_network e)"
proof (cases "parseStatus s")
  case (Pair r s')
  then have t: "trace s' = trace s" using parseStatus_trace[of s] by simp
  show ?thesis
  proof (cases r)
    case Returned
    then show ?thesis using Pair t
      by (auto simp: refresh_parse_def updateHomeKitCharacteristics_def)
  next
    case Threw
    then show ?thesis using Pair t
      by (auto simp: refresh_parse_def refresh_catch_trace)
  qed
qed

lemma refreshStatus_trace:
  "\<exists>es. trace (refreshStatus n s) = trace s @ AxiosGetThermostat # es \<and>
        (\<forall>e\<in>set es. \<forall>p. e \<noteq> AxiosPostThermostat p) \<and> (\<forall>e\<in>set es. \<forall>m. e \<noteq> AxiosPostFan m)"
proof (cases "get_thermostat n")
  case None
  then show ?thesis
    by (auto simp: refreshStatus_def refresh_catch_trace)
next
  case (Some d)
  let ?s1 = "(emit AxiosGetThermostat s)\<lparr>device := d\<rparr>"
  have t1: "trace ?s1 = trace s @ [AxiosGetThermostat]" by simp
  show ?thesis
  proof (cases "fan_enabled ?s1")
    case False
    obtain es where "trace (refresh_parse ?s1) = trace ?s1 @ es" "\<forall>e\<in>set es. \<not> is_network e"
      using refresh_parse_trace[of ?s1] by blast
    then show ?thesis using Some False
      by (auto simp: refreshStatus_def Let_def)
  next
    case True
    show ?thesis
    proof (cases "get_fan n")
      case None
      then show ?thesis using Some True
        by (auto simp: refreshStatus_def Let_def refresh_catch_trace)
    next
      case (Some f)
      let ?s2 = "(emit AxiosGetFan ?s1)\<lparr>deviceFan := Some f\<rparr>"
      obtain es where "trace (refresh_parse ?s2) = trace ?s2 @ es" "\<forall>e\<in>set es. \<not> is_network e"
        using refresh_parse_trace[of ?s2] by blast
      then show ?thesis using Some True \<open>get_thermostat n = Some d\<close>
        by (auto simp: refreshStatus_def Let_def)
    qed
  qed
qed

lemma pushChanges_unfold:
  "pushChanges n s =
     (if strict_ne (HeatingThresholdTemperature s)
           (toCelsius s (heatSetpoint (changeableValues (device s)))) \<or>
         strict_ne (CoolingThresholdTemperature s)
           (toCelsius s (coolSetpoint (changeableValues (device s)))) \<or>
         strict_ne (TargetHeatingCoolingState s) (modes (mode (changeableValues (device s))))
      then
        (let p = \<lparr>payload_mode = array_get honeywellMode (TargetHeatingCoolingState s),
                   payload_thermostatSetpointStatus =
                     (case options_thermostat s of None \<Rightarrow> None
                      | Some t \<Rightarrow> thermostatSetpointStatus t),
                   payload_heatSetpoint =
                     toFahrenheit s (if TargetHeatingCoolingState s = HEAT then TargetTemperature s
                                     else HeatingThresholdTemperature s),
                   payload_coolSetpoint =
                     toFahrenheit s (if TargetHeatingCoolingState s = HEAT then CoolingThresholdTemperature s
                                     else if TargetHeatingCoolingState s = COOL then TargetTemperature s
                                     else CoolingThresholdTemperature s)\<rparr>
         in if post_ok n then (Returned, refreshStatus n (emit (AxiosPostThermostat p) s))
            else (Threw, emit (AxiosPostThermostat p) s))
      else (Returned, s))"
  by (simp add: pushChanges_def Let_def HEAT_def COOL_def AUTO_def)

lemma toCelsius_units: "TemperatureDisplayUnits s = TemperatureDisplayUnits s' \<Longrightarrow> toCelsius s v = toCelsius s' v"
  by (simp add: toCelsius_def)

lemma parse_units_frame [simp]:
  "device (parse_units s) = device s"
  "fanService (parse_units s) = fanService s"
  "options_thermostat (parse_units s) = options_thermostat s"
  "deviceFan (parse_units s) = deviceFan s"
  "HeatingThresholdTemperature (parse_units s) = HeatingThresholdTemperature s"
  "CoolingThresholdTemperature (parse_units s) = CoolingThresholdTemperature s"
  "TargetTemperature (parse_units s) = TargetTemperature s"
  by (simp_all add: parse_units_def Let_def)

lemma parse_indoor_frame [simp]:
  "device (parse_indoor s) = device s"
  "fanService (parse_indoor s) = fanService s"
  "options_thermostat (parse_indoor s) = options_thermostat s"
  "deviceFan (parse_indoor s) = deviceFan s"
  "TemperatureDisplayUnits (parse_indoor s) = TemperatureDisplayUnits s"
  "HeatingThresholdTemperature (parse_indoor s) = HeatingThresholdTemperature s"
  "CoolingThresholdTemperature (parse_indoor s) = CoolingThresholdTemperature s"
  "TargetTemperature (parse_indoor s) = TargetTemperature s"
  by (simp_all add: parse_indoor_def)

lemma parse_thresholds_frame [simp]:
  "device (parse_thresholds s) = device s"
  "fanService (parse_thresholds s) = fanService s"
  "options_thermostat (parse_thresholds s) = options_thermostat s"
  "deviceFan (parse_thresholds s) = deviceFan s"
  "TemperatureDisplayUnits (parse_thresholds s) = TemperatureDisplayUnits s"
  "TargetTemperature (parse_thresholds s) = TargetTemperature s"
  by (simp_all add: parse_thresholds_def Let_def)

lemma parse_thresholds_heat:
  "HeatingThresholdTemperature (parse_thresholds s) =
     (if gt_zero (heatSetpoint (changeableValues (device s)))
      then toCelsius s (heatSetpoint (changeableValues (device s)))
      else HeatingThresholdTemperature s)"
  by (simp add: parse_thresholds_def Let_def)

lemma parse_thresholds_cool:
  "CoolingThresholdTemperature (parse_thresholds s) =
     (if gt_zero (coolSetpoint (changeableValues (device s)))
      then toCelsius s (coolSetpoint (changeableValues (device s)))
      else CoolingThresholdTemperature s)"
  by (simp add: parse_thresholds_def Let_def toCelsius_def)

lemma parse_states_frame [simp]:
  "device (parse_states s) = device s"
  "fanService (parse_states s) = fanService s"
  "options_thermostat (parse_states s) = options_thermostat s"
  "deviceFan (parse_states s) = deviceFan s"
  "TemperatureDisplayUnits (parse_states s) = TemperatureDisplayUnits s"
  "HeatingThresholdTemperature (parse_states s) = HeatingThresholdTemperature s"
  "CoolingThresholdTemperature (parse_states s) = CoolingThresholdTemperature s"
  "TargetTemperature (parse_states s) = TargetTemperature s"
  "TargetHeatingCoolingState (parse_states s) = modes (mode (changeableValues (device s)))"
  by (simp_all add: parse_states_def)

lemma parse_target_temperature_frame [simp]:
  "device (parse_target_temperature s) = device s"
  "fanService (parse_target_temperature s) = fanService s"
  "options_thermostat (parse_target_temperature s) = options_thermostat s"
  "deviceFan (parse_target_temperature s) = deviceFan s"
  "TemperatureDisplayUnits (parse_target_temperature s) = TemperatureDisplayUnits s"
  "HeatingThresholdTemperature (parse_target_temperature s) = HeatingThresholdTemperature s"
  "CoolingThresholdTemperature (parse_target_temperature s) = CoolingThresholdTemperature s"
  "TargetHeatingCoolingState (parse_target_temperature s) = TargetHeatingCoolingState s"
  by (simp_all add: parse_target_temperature_def)

lemma parse_fan_frame [simp]:
  "device (snd (parse_fan s)) = device s"
  "fanService (snd (parse_fan s)) = fanService s"
  "options_thermostat (snd (parse_fan s)) = options_thermostat s"
  "TemperatureDisplayUnits (snd (parse_fan s)) = TemperatureDisplayUnits s"
  "HeatingThresholdTemperature (snd (parse_fan s)) = HeatingThresholdTemperature s"
  "CoolingThresholdTemperature (snd (parse_fan s)) = CoolingThresholdTemperature s"
  "TargetHeatingCoolingState (snd (parse_fan s)) = TargetHeatingCoolingState s"
  "TargetTemperature (snd (parse_fan s)) = TargetTemperature s"
  by (simp_all add: parse_fan_def parse_fan_mode_def split: option.splits)

lemma parseStatus_units:
  "TemperatureDisplayUnits (snd (parseStatus s)) = TemperatureDisplayUnits (parse_units s)"
  by (simp add: parseStatus_def)

lemma parseStatus_target_state:
  "TargetHeatingCoolingState (snd (parseStatus s)) = modes (mode (changeableValues (device s)))"
  by (simp add: parseStatus_def)

lemma parseStatus_device: "device (snd (parseStatus s)) = device s"
  by (simp add: parseStatus_def)

lemma parseStatus_heat:
  "HeatingThresholdTemperature (snd (parseStatus s)) =
     (if gt_zero (heatSetpoint (changeableValues (device s)))
      then toCelsius (parse_units s) (heatSetpoint (changeableValues (device s)))
      else HeatingThresholdTemperature s)"
  by (simp add: parseStatus_def parse_thresholds_heat toCelsius_units[of "parse_indoor (parse_units s)" "parse_units s"])

lemma parseStatus_cool:
  "CoolingThresholdTemperature (snd (parseStatus s)) =
     (if gt_zero (coolSetpoint (changeableValues (device s)))
      then toCelsius (parse_units s) (coolSetpoint (changeableValues (device s)))
      else CoolingThresholdTemperature s)"
  by (simp add: parseStatus_def parse_thresholds_cool toCelsius_units[of "parse_indoor (parse_units s)" "parse_units s"])

lemma target_temperature_after_parse:
  "TargetTemperature (snd (parseStatus s)) =
     (if modes (mode (changeableValues (device s))) = HEAT then
        (if gt_zero (heatSetpoint (changeableValues (device s))) \<or> truthy (minHeatSetpoint (device s))
         then toCelsius (parse_units s) (heatSetpoint (changeableValues (device s)))
         else TargetTemperature s)
      else
        (if gt_zero (coolSetpoint (changeableValues (device s))) \<or> truthy (minCoolSetpoint (device s))
         then toCelsius (parse_units s) (coolSetpoint (changeableValues (device s)))
         else TargetTemperature s))"
proof -
  let ?s = "parse_states (parse_thresholds (parse_indoor (parse_units s)))"
  have u: "\<And>v. toCelsius ?s v = toCelsius (parse_units s) v"
    by (rule toCelsius_units) simp
  show ?thesis
    by (simp add: parseStatus_def parse_target_temperature_def u HEAT_def)
qed

lemma setTargetHeatingCoolingState_target_temperature:
  "TargetTemperature (setTargetHeatingCoolingState v s) =
     toCelsius s (if v = HEAT then heatSetpoint (changeableValues (device s))
                  else coolSetpoint (changeableValues (device s)))"
  by (simp add: setTargetHeatingCoolingState_def doThermostatUpdate_next_def emit_def Let_def
      toCelsius_def HEAT_def)

lemma toCelsius_zero:
  "toCelsius s (Num 0) = (if TemperatureDisplayUnits s = CELSIUS then Num 0 else Num (- 18))"
proof (cases "TemperatureDisplayUnits s = CELSIUS")
  case True
  then show ?thesis by (simp add: toCelsius_celsius)
next
  case False
  have "toCelsius s (Num 0) = Num (- 18)"
    by (simp only: toCelsius_fahrenheit[OF False] fahrenheit_to_celsius_0)
  with False show ?thesis by simp
qed

lemma changed_threshold_differs:
  "strict_ne (HeatingThresholdTemperature changed_threshold_state)
     (toCelsius changed_threshold_state
        (heatSetpoint (changeableValues (device changed_threshold_state))))"
proof -
  let ?s = changed_threshold_state
  have f: "HeatingThresholdTemperature ?s = Num 21"
      "heatSetpoint (changeableValues (device ?s)) = Num 68"
      "TemperatureDisplayUnits ?s \<noteq> CELSIUS"
    by (simp_all add: changed_threshold_state_def example_state_def example_device_def
        CELSIUS_def FAHRENHEIT_def)
  have c: "toCelsius ?s (Num 68) = Num 20"
    by (simp only: toCelsius_fahrenheit[OF f(3)] fahrenheit_to_celsius_68)
  show ?thesis by (simp add: f c strict_ne_def)
qed

lemma pushFanChanges_unfold:
  "pushFanChanges n s =
     (if fan_enabled s then
        if post_ok n
        then (Returned, refreshStatus n (emit (AxiosPostFan
               (if TargetFanState s = FAN_AUTO then ''Auto''
                else if TargetFanState s = FAN_MANUAL \<and> Active s = ACTIVE then ''On''
                else if TargetFanState s = FAN_MANUAL \<and> Active s = INACTIVE then ''Circulate''
                else ''Auto'')) s))
        else (Threw, emit (AxiosPostFan
               (if TargetFanState s = FAN_AUTO then ''Auto''
                else if TargetFanState s = FAN_MANUAL \<and> Active s = ACTIVE then ''On''
                else if TargetFanState s = FAN_MANUAL \<and> Active s = INACTIVE then ''Circulate''
                else ''Auto'')) s)
      else (Returned, refreshStatus n s))"
  by (simp add: pushFanChanges_def Let_def FAN_AUTO_def FAN_MANUAL_def ACTIVE_def INACTIVE_def)

lemma fan_enabled_emit [simp]: "fan_enabled (emit e s) = fan_enabled s"
  by (simp add: fan_enabled_def emit_def)

lemma fanService_emit [simp]: "fanService (emit e s) = fanService s"
  by (simp add: emit_def)

lemma example_fan_enabled: "fan_enabled example_state"
  by (simp add: fan_enabled_def example_state_def example_device_def)

lemma refreshStatus_thermostat_rejected:
  "get_thermostat n = None \<Longrightarrow>
   trace (refreshStatus n s) = trace s @ AxiosGetThermostat # RefreshAccessToken # error_broadcast s"
  by (simp add: refreshStatus_def refresh_catch_trace)

lemma refreshStatus_fan_rejected:
  "get_thermostat n = Some d \<Longrightarrow> fan_enabled (s\<lparr>device := d\<rparr>) \<Longrightarrow> get_fan n = None \<Longrightarrow>
   trace (refreshStatus n s) =
     trace s @ AxiosGetThermostat # AxiosGetFan # RefreshAccessToken # error_broadcast (s\<lparr>device := d\<rparr>)"
proof -
  assume a: "get_thermostat n = Some d" "fan_enabled (s\<lparr>device := d\<rparr>)" "get_fan n = None"
  have f: "fan_enabled ((emit AxiosGetThermostat s)\<lparr>device := d\<rparr>)"
    using a(2) by (simp add: fan_enabled_def emit_def)
  have b: "error_broadcast ((emit AxiosGetThermostat s)\<lparr>device := d\<rparr>) = error_broadcast (s\<lparr>device := d\<rparr>)"
    by (simp add: owned_characteristics_def fan_enabled_def emit_def)
  show ?thesis
    using a f by (simp add: refreshStatus_def Let_def refresh_catch_trace b)
qed

lemma pushChanges_shape:
  "\<exists>p. pushChanges n s = (Returned, s) \<or>
       pushChanges n s = (Returned, refreshStatus n (emit (AxiosPostThermostat p) s)) \<or>
       pushChanges n s = (Threw, emit (AxiosPostThermostat p) s)"
  unfolding pushChanges_unfold Let_def
  by (cases "post_ok n") auto

lemma pushChanges_threw:
  "fst (pushChanges n s) = Threw \<Longrightarrow> \<exists>p. pushChanges n s = (Threw, emit (AxiosPostThermostat p) s)"
  using pushChanges_shape[of n s] by auto

lemma pushFanChanges_shape:
  "\<exists>m. pushFanChanges n s = (Returned, refreshStatus n s) \<or>
       pushFanChanges n s = (Returned, refreshStatus n (emit (AxiosPostFan m) s)) \<or>
       pushFanChanges n s = (Threw, emit (AxiosPostFan m) s)"
  unfolding pushFanChanges_unfold
  by (cases "post_ok n") auto

lemma pushFanChanges_threw:
  "fst (pushFanChanges n s) = Threw \<Longrightarrow> \<exists>m. pushFanChanges n s = (Threw, emit (AxiosPostFan m) s)"
  using pushFanChanges_shape[of n s] by auto

lemma fan_enabled_parseStatus: "fan_enabled (snd (parseStatus s)) = fan_enabled s"
  by (simp add: fan_enabled_def parseStatus_def)

lemma fanService_parseStatus: "fanService (snd (parseStatus s)) = fanService s"
  by (simp add: parseStatus_def)

lemma thermostat_flag_cleared: "\<not> thermostatUpdateInProgress (doThermostatUpdate_subscriber n s)"
  by (simp add: doThermostatUpdate_subscriber_def split: prod.splits outcome.splits)

lemma fan_flag_cleared: "\<not> fanUpdateInProgress (doFanUpdate_subscriber n s)"
  by (simp add: doFanUpdate_subscriber_def split: prod.splits outcome.splits)

subsection \<open>Unit conversion\<close>

text \<open>
  C4, refuted as stated. On a Fahrenheit thermostat \<^verbatim>\<open>toCelsius\<close> of the double nearest to 72.05
  is 22.5, while the formula of the specification taken over the real numbers,
  \<open>round ((5 / 9) * (value - 32) * 2) / 2\<close>, gives 22 for that same number, which is also the
  nearest half degree to the exact conversion 22.2499...: the product is rounded to a double
  three times before \<^verbatim>\<open>Math.round\<close> sees it, and lands on the tie 44.5. Likewise
  \<^verbatim>\<open>toFahrenheit\<close> of the double just below 2.5 is 37, while the nearest whole degree to the exact
  conversion 36.4999... is 36.
\<close>

theorem conversion_formulas_rounding_counterexample:
  "TemperatureDisplayUnits example_state \<noteq> CELSIUS \<and>
   toCelsius example_state (Num (5070068018000691 / 70368744177664)) = Num (45 / 2) \<and>
   real_of_int (round (5 / 9 * (5070068018000691 / 70368744177664 - 32) * 2 :: real)) / 2 = 22 \<and>
   toFahrenheit example_state (Num (5629499534213119 / 2251799813685248)) = Num 37 \<and>
   round (5629499534213119 / 2251799813685248 * 9 / 5 + 32 :: real) = 36"
proof -
  have u: "TemperatureDisplayUnits example_state \<noteq> CELSIUS" by (rule example_fahrenheit)
  have c: "toCelsius example_state (Num (5070068018000691 / 70368744177664)) = Num (45 / 2)"
    by (simp only: toCelsius_fahrenheit[OF u] fahrenheit_to_celsius_72_05)
  have f: "toFahrenheit example_state (Num (5629499534213119 / 2251799813685248)) = Num 37"
    by (simp only: toFahrenheit_fahrenheit[OF u] celsius_to_fahrenheit_2_5)
  have r: "real_of_int (round (5 / 9 * (5070068018000691 / 70368744177664 - 32) * 2 :: real)) / 2 = 22"
    by (simp add: round_def)
  have q: "round (5629499534213119 / 2251799813685248 * 9 / 5 + 32 :: real) = 36"
    by (simp add: round_def)
  from u c r f q show ?thesis by (intro conjI)
qed

text \<open>
  C4, amended. For every input, \<^verbatim>\<open>toCelsius\<close> returns it unchanged when the display unit is
  Celsius and otherwise evaluates \<^verbatim>\<open>Math.round((5 / 9) * (value - 32) * 2) / 2\<close> in double
  precision, each operation rounded to the nearest double; \<^verbatim>\<open>toFahrenheit\<close> returns it unchanged
  when the display unit is Celsius and otherwise evaluates \<^verbatim>\<open>Math.round((value * 9) / 5 + 32)\<close>
  the same way. When the unit is not Celsius: every number \<^verbatim>\<open>toCelsius\<close> returns is a multiple of
  one half and every number \<^verbatim>\<open>toFahrenheit\<close> returns is whole; on a number of magnitude at most
  \<open>2 ^ 40\<close> \<^verbatim>\<open>toCelsius\<close> returns a number within \<open>1 / 4 + 1 / 128\<close> of the exact conversion and
  \<^verbatim>\<open>toFahrenheit\<close> a number within \<open>1 / 2 + 1 / 128\<close> of it (not always the nearest grid point);
  32 becomes 0, 212 becomes 100, and 0 goes back to 32.
\<close>

theorem conversion_formulas:
  "toCelsius s v = (if TemperatureDisplayUnits s = CELSIUS then v
      else js_div (Math_round (js_mul (js_mul (js_div (Num 5) (Num 9)) (js_sub v (Num 32))) (Num 2))) (Num 2)) \<and>
   toFahrenheit s v = (if TemperatureDisplayUnits s = CELSIUS then v
      else Math_round (js_add (js_div (js_mul v (Num 9)) (Num 5)) (Num 32))) \<and>
   (TemperatureDisplayUnits s \<noteq> CELSIUS \<longrightarrow>
      (\<forall>r. toCelsius s v = Num r \<longrightarrow> (\<exists>k::int. r = of_int k / 2)) \<and>
      (\<forall>r. toFahrenheit s v = Num r \<longrightarrow> (\<exists>k::int. r = of_int k)) \<and>
      (\<bar>x\<bar> \<le> 2 ^ 40 \<longrightarrow>
         (\<exists>k::int. toCelsius s (Num x) = Num (of_int k / 2) \<and>
            \<bar>of_int k / 2 - 5 / 9 * (x - 32)\<bar> \<le> 1 / 4 + 1 / 128) \<and>
         (\<exists>k::int. toFahrenheit s (Num x) = Num (of_int k) \<and>
            \<bar>of_int k - (x * 9 / 5 + 32)\<bar> \<le> 1 / 2 + 1 / 128)) \<and>
      toCelsius s (Num 32) = Num 0 \<and> toCelsius s (Num 212) = Num 100 \<and>
      toFahrenheit s (Num 0) = Num 32)"
proof -
  have 1: "toCelsius s v = (if TemperatureDisplayUnits s = CELSIUS then v
      else js_div (Math_round (js_mul (js_mul (js_div (Num 5) (Num 9)) (js_sub v (Num 32))) (Num 2))) (Num 2))"
    by (simp add: toCelsius_celsius toCelsius_fahrenheit)
  have 2: "toFahrenheit s v = (if TemperatureDisplayUnits s = CELSIUS then v
      else Math_round (js_add (js_div (js_mul v (Num 9)) (Num 5)) (Num 32)))"
    by (simp add: toFahrenheit_celsius toFahrenheit_fahrenheit)
  have 3: "TemperatureDisplayUnits s \<noteq> CELSIUS \<longrightarrow>
      (\<forall>r. toCelsius s v = Num r \<longrightarrow> (\<exists>k::int. r = of_int k / 2)) \<and>
      (\<forall>r. toFahrenheit s v = Num r \<longrightarrow> (\<exists>k::int. r = of_int k)) \<and>
      (\<bar>x\<bar> \<le> 2 ^ 40 \<longrightarrow>
         (\<exists>k::int. toCelsius s (Num x) = Num (of_int k / 2) \<and>
            \<bar>of_int k / 2 - 5 / 9 * (x - 32)\<bar> \<le> 1 / 4 + 1 / 128) \<and>
         (\<exists>k::int. toFahrenheit s (Num x) = Num (of_int k) \<and>
            \<bar>of_int k - (x * 9 / 5 + 32)\<bar> \<le> 1 / 2 + 1 / 128)) \<and>
      toCelsius s (Num 32) = Num 0 \<and> toCelsius s (Num 212) = Num 100 \<and>
      toFahrenheit s (Num 0) = Num 32"
  proof
    assume u: "TemperatureDisplayUnits s \<noteq> CELSIUS"
    have a: "\<forall>r. toCelsius s v = Num r \<longrightarrow> (\<exists>k::int. r = of_int k / 2)"
      using toCelsius_grid[OF u] by blast
    have b: "\<forall>r. toFahrenheit s v = Num r \<longrightarrow> (\<exists>k::int. r = of_int k)"
      using toFahrenheit_grid[OF u] by blast
    have c: "\<bar>x\<bar> \<le> 2 ^ 40 \<longrightarrow>
         (\<exists>k::int. toCelsius s (Num x) = Num (of_int k / 2) \<and>
            \<bar>of_int k / 2 - 5 / 9 * (x - 32)\<bar> \<le> 1 / 4 + 1 / 128) \<and>
         (\<exists>k::int. toFahrenheit s (Num x) = Num (of_int k) \<and>
            \<bar>of_int k - (x * 9 / 5 + 32)\<bar> \<le> 1 / 2 + 1 / 128)"
    proof
      assume h: "\<bar>x\<bar> \<le> 2 ^ 40"
      show "(\<exists>k::int. toCelsius s (Num x) = Num (of_int k / 2) \<and>
            \<bar>of_int k / 2 - 5 / 9 * (x - 32)\<bar> \<le> 1 / 4 + 1 / 128) \<and>
         (\<exists>k::int. toFahrenheit s (Num x) = Num (of_int k) \<and>
            \<bar>of_int k - (x * 9 / 5 + 32)\<bar> \<le> 1 / 2 + 1 / 128)"
        by (intro conjI toCelsius_near[OF u h] toFahrenheit_near[OF u h])
    qed
    have d: "toCelsius s (Num 32) = Num 0"
      by (simp only: toCelsius_fahrenheit[OF u] fahrenheit_to_celsius_32)
    have e: "toCelsius s (Num 212) = Num 100"
      by (simp only: toCelsius_fahrenheit[OF u] fahrenheit_to_celsius_212)
    have f: "toFahrenheit s (Num 0) = Num 32"
      by (simp only: toFahrenheit_fahrenheit[OF u] celsius_to_fahrenheit_0)
    from a b c d e f show "(\<forall>r. toCelsius s v = Num r \<longrightarrow> (\<exists>k::int. r = of_int k / 2)) \<and>
      (\<forall>r. toFahrenheit s v = Num r \<longrightarrow> (\<exists>k::int. r = of_int k)) \<and>
      (\<bar>x\<bar> \<le> 2 ^ 40 \<longrightarrow>
         (\<exists>k::int. toCelsius s (Num x) = Num (of_int k / 2) \<and>
            \<bar>of_int k / 2 - 5 / 9 * (x - 32)\<bar> \<le> 1 / 4 + 1 / 128) \<and>
         (\<exists>k::int. toFahrenheit s (Num x) = Num (of_int k) \<and>
            \<bar>of_int k - (x * 9 / 5 + 32)\<bar> \<le> 1 / 2 + 1 / 128)) \<and>
      toCelsius s (Num 32) = Num 0 \<and> toCelsius s (Num 212) = Num 100 \<and>
      toFahrenheit s (Num 0) = Num 32"
      by (intro conjI)
  qed
  from 1 2 3 show ?thesis by (intro conjI)
qed

text \<open>The conversions evaluated on a Fahrenheit thermostat, at 68 degrees Fahrenheit and at 20
  degrees Celsius, and on a Celsius thermostat.\<close>

theorem conversion_formulas_witness:
  "TemperatureDisplayUnits example_state \<noteq> CELSIUS \<and> \<bar>20 :: real\<bar> \<le> 2 ^ 40 \<and>
   toCelsius example_state (Num 68) = Num 20 \<and>
   (\<exists>k::int. (20 :: real) = real_of_int k / 2) \<and>
   toFahrenheit example_state (Num 68) =
     Math_round (js_add (js_div (js_mul (Num 68) (Num 9)) (Num 5)) (Num 32)) \<and>
   (\<exists>k::int. toCelsius example_state (Num 20) = Num (real_of_int k / 2) \<and>
      \<bar>real_of_int k / 2 - 5 / 9 * (20 - 32)\<bar> \<le> 1 / 4 + 1 / 128) \<and>
   (\<exists>k::int. toFahrenheit example_state (Num 20) = Num (real_of_int k) \<and>
      \<bar>real_of_int k - (20 * 9 / 5 + 32)\<bar> \<le> 1 / 2 + 1 / 128) \<and>
   toCelsius example_state (Num 32) = Num 0 \<and> toCelsius example_state (Num 212) = Num 100 \<and>
   toFahrenheit example_state (Num 0) = Num 32 \<and>
   TemperatureDisplayUnits celsius_state = CELSIUS \<and>
   toCelsius celsius_state (Num 21.5) = Num 21.5 \<and> toFahrenheit celsius_state (Num 21.5) = Num 21.5"
proof -
  have u: "TemperatureDisplayUnits example_state \<noteq> CELSIUS" by (rule example_fahrenheit)
  have h: "\<bar>20 :: real\<bar> \<le> 2 ^ 40" by simp
  have c: "TemperatureDisplayUnits celsius_state = CELSIUS"
    by (simp add: celsius_state_def example_state_def)
  have v: "toCelsius example_state (Num 68) = Num 20"
    by (simp only: toCelsius_fahrenheit[OF u] fahrenheit_to_celsius_68)
  note T = conversion_formulas[of example_state "Num 68" 20]
  note F = conjunct1[OF conjunct2[OF T], unfolded if_not_P[OF u]]
  note R = mp[OF conjunct2[OF conjunct2[OF T]] u]
  have g: "\<exists>k::int. (20 :: real) = real_of_int k / 2"
    using spec[OF conjunct1[OF R], of 20] v by blast
  note N = mp[OF conjunct1[OF conjunct2[OF conjunct2[OF R]]] h]
  note V = conjunct2[OF conjunct2[OF conjunct2[OF R]]]
  note C = conversion_formulas[of celsius_state "Num 21.5" 0, unfolded if_P[OF c]]
  from u h v g F conjunct1[OF N] conjunct2[OF N]
    conjunct1[OF V] conjunct1[OF conjunct2[OF V]] conjunct2[OF conjunct2[OF V]]
    c conjunct1[OF C] conjunct1[OF conjunct2[OF C]]
  show ?thesis by (intro conjI)
qed

text \<open>
  C5, refuted as stated. On a Fahrenheit thermostat the input 3786315724416254 converts to
  2103508735786790 degrees Celsius; that goes back to 3786315724416255 degrees Fahrenheit (the
  sum \<open>9 * c / 5 + 32\<close> falls on a tie between two doubles) and then to 2103508735786791, one whole
  degree away from the first conversion.
\<close>

theorem conversion_round_trip_drift_counterexample:
  "TemperatureDisplayUnits example_state \<noteq> CELSIUS \<and>
   toCelsius example_state (Num 3786315724416254) = Num 2103508735786790 \<and>
   toCelsius example_state (toFahrenheit example_state (toCelsius example_state (Num 3786315724416254))) =
     Num 2103508735786791 \<and>
   \<not> \<bar>(2103508735786791 - 2103508735786790) :: real\<bar> \<le> 1 / 2"
proof -
  have u: "TemperatureDisplayUnits example_state \<noteq> CELSIUS" by (rule example_fahrenheit)
  have a: "toCelsius example_state (Num 3786315724416254) = Num 2103508735786790"
    by (simp only: toCelsius_fahrenheit[OF u] fahrenheit_to_celsius_big)
  have b: "toCelsius example_state (toFahrenheit example_state (toCelsius example_state (Num 3786315724416254))) =
     Num 2103508735786791"
    by (simp only: toCelsius_fahrenheit[OF u] toFahrenheit_fahrenheit[OF u]
        fahrenheit_to_celsius_big celsius_to_fahrenheit_big fahrenheit_to_celsius_big1)
  have c: "\<not> \<bar>(2103508735786791 - 2103508735786790) :: real\<bar> \<le> 1 / 2" by simp
  from u a b c show ?thesis by (intro conjI)
qed

text \<open>
  C5, amended. When the display unit is not Celsius, converting a number of magnitude at most
  \<open>2 ^ 40\<close> to Celsius, back to Fahrenheit and to Celsius again gives numbers, and the second
  Celsius value is within half a degree of the first.
\<close>

theorem conversion_round_trip:
  "TemperatureDisplayUnits s \<noteq> CELSIUS \<Longrightarrow> \<bar>v\<bar> \<le> 2 ^ 40 \<Longrightarrow>
   \<exists>a b. toCelsius s (Num v) = Num a \<and>
         toCelsius s (toFahrenheit s (toCelsius s (Num v))) = Num b \<and> \<bar>b - a\<bar> \<le> 1 / 2"
proof -
  assume u: "TemperatureDisplayUnits s \<noteq> CELSIUS" and h: "\<bar>v\<bar> \<le> 2 ^ 40"
  show ?thesis
    unfolding toCelsius_fahrenheit[OF u] toFahrenheit_fahrenheit[OF u]
    by (rule round_trip_near[OF h])
qed

text \<open>The round trip from 36.5 degrees Fahrenheit: 2.5 degrees Celsius, 37 degrees Fahrenheit,
  3 degrees Celsius.\<close>

theorem conversion_round_trip_witness:
  "TemperatureDisplayUnits example_state \<noteq> CELSIUS \<and> \<bar>73 / 2 :: real\<bar> \<le> 2 ^ 40 \<and>
   toCelsius example_state (Num (73 / 2)) = Num (5 / 2) \<and>
   toFahrenheit example_state (Num (5 / 2)) = Num 37 \<and>
   toCelsius example_state (Num 37) = Num 3 \<and>
   (\<exists>a b. toCelsius example_state (Num (73 / 2)) = Num a \<and>
         toCelsius example_state (toFahrenheit example_state (toCelsius example_state (Num (73 / 2)))) = Num b \<and>
         \<bar>b - a\<bar> \<le> 1 / 2)"
proof -
  have u: "TemperatureDisplayUnits example_state \<noteq> CELSIUS" by (rule example_fahrenheit)
  have h: "\<bar>73 / 2 :: real\<bar> \<le> 2 ^ 40" by simp
  have a: "toCelsius example_state (Num (73 / 2)) = Num (5 / 2)"
    by (simp only: toCelsius_fahrenheit[OF u] fahrenheit_to_celsius_36_5)
  have b: "toFahrenheit example_state (Num (5 / 2)) = Num 37"
    by (simp only: toFahrenheit_fahrenheit[OF u] celsius_to_fahrenheit_h2_5)
  have c: "toCelsius example_state (Num 37) = Num 3"
    by (simp only: toCelsius_fahrenheit[OF u] fahrenheit_to_celsius_37)
  from u h a b c conversion_round_trip[OF u h] show ?thesis by (intro conjI)
qed

subsection \<open>The valid target states\<close>

text \<open>
  C6. \<^verbatim>\<open>TargetState\<close> returns the values of those of Cool, Heat, Off, Auto whose name is in
  \<^verbatim>\<open>allowedModes\<close>, in that order; the placeholder 4 is never in the result, and for the allowed
  modes Heat and Off the result is Heat, Off.
\<close>

theorem TargetState_ordered_subset:
  "TargetState s =
     map modes (filter (\<lambda>m. m \<in> set (allowedModes (device s))) [''Cool'', ''Heat'', ''Off'', ''Auto'']) \<and>
   TargetState s =
     filter (\<lambda>v. (v = COOL \<and> ''Cool'' \<in> set (allowedModes (device s))) \<or>
                  (v = HEAT \<and> ''Heat'' \<in> set (allowedModes (device s))) \<or>
                  (v = OFF \<and> ''Off'' \<in> set (allowedModes (device s))) \<or>
                  (v = AUTO \<and> ''Auto'' \<in> set (allowedModes (device s)))) [COOL, HEAT, OFF, AUTO] \<and>
   Num 4 \<notin> set (TargetState s) \<and>
   (allowedModes (device s) = [''Heat'', ''Off''] \<longrightarrow> TargetState s = [HEAT, OFF])"
  by (simp add: TargetState_def Let_def modes_def COOL_def HEAT_def OFF_def AUTO_def)

text \<open>The example device allows exactly Heat and Off.\<close>

theorem TargetState_ordered_subset_witness:
  "allowedModes (device example_state) = [''Heat'', ''Off''] \<and> TargetState example_state = [HEAT, OFF] \<and>
   Num 4 \<notin> set (TargetState example_state)"
proof -
  have a: "allowedModes (device example_state) = [''Heat'', ''Off'']"
    by (simp add: example_state_def example_device_def)
  show ?thesis using TargetState_ordered_subset[of example_state] a
    by (simp add: modes_def HEAT_def OFF_def)
qed

subsection \<open>Deriving the characteristics from a snapshot\<close>

text \<open>
  C7. After \<^verbatim>\<open>parseStatus\<close> the heating threshold is the converted remote heat setpoint when
  that setpoint is greater than zero and is the value held before otherwise; the same holds
  for the cooling threshold and the cool setpoint. In particular a setpoint that is zero or
  absent leaves the threshold unchanged.
\<close>

theorem parseStatus_thresholds_guarded:
  "HeatingThresholdTemperature (snd (parseStatus s)) =
     (if gt_zero (heatSetpoint (changeableValues (device s)))
      then toCelsius (snd (parseStatus s)) (heatSetpoint (changeableValues (device s)))
      else HeatingThresholdTemperature s) \<and>
   CoolingThresholdTemperature (snd (parseStatus s)) =
     (if gt_zero (coolSetpoint (changeableValues (device s)))
      then toCelsius (snd (parseStatus s)) (coolSetpoint (changeableValues (device s)))
      else CoolingThresholdTemperature s) \<and>
   (heatSetpoint (changeableValues (device s)) = Num 0 \<or>
    heatSetpoint (changeableValues (device s)) = Undefined \<longrightarrow>
      HeatingThresholdTemperature (snd (parseStatus s)) = HeatingThresholdTemperature s) \<and>
   (coolSetpoint (changeableValues (device s)) = Num 0 \<or>
    coolSetpoint (changeableValues (device s)) = Undefined \<longrightarrow>
      CoolingThresholdTemperature (snd (parseStatus s)) = CoolingThresholdTemperature s)"
proof -
  have u: "\<And>v. toCelsius (snd (parseStatus s)) v = toCelsius (parse_units s) v"
    by (rule toCelsius_units) (simp add: parseStatus_units)
  show ?thesis
    by (auto simp: parseStatus_heat parseStatus_cool u)
qed

text \<open>A snapshot whose heat setpoint is zero: the heating threshold stays at 20, the cooling
  threshold follows the cool setpoint.\<close>

theorem parseStatus_thresholds_guarded_witness:
  "heatSetpoint (changeableValues (device zero_heat_setpoint_state)) = Num 0 \<and>
   HeatingThresholdTemperature zero_heat_setpoint_state = Num 20 \<and>
   HeatingThresholdTemperature (snd (parseStatus zero_heat_setpoint_state)) = Num 20 \<and>
   coolSetpoint (changeableValues (device zero_heat_setpoint_state)) = Num 75 \<and>
   CoolingThresholdTemperature (snd (parseStatus zero_heat_setpoint_state)) =
     toCelsius (snd (parseStatus zero_heat_setpoint_state)) (Num 75)"
proof -
  let ?s = zero_heat_setpoint_state
  have f: "heatSetpoint (changeableValues (device ?s)) = Num 0"
      "coolSetpoint (changeableValues (device ?s)) = Num 75"
      "HeatingThresholdTemperature ?s = Num 20"
    by (simp_all add: zero_heat_setpoint_state_def example_state_def example_device_def)
  show ?thesis
    using parseStatus_thresholds_guarded[of ?s] by (simp add: f)
qed

text \<open>
  C8, as stated, fails: with the remote mode Heat, the heat setpoint zero and
  \<^verbatim>\<open>minHeatSetpoint\<close> zero, \<^verbatim>\<open>parseStatus\<close> leaves the target temperature at the 20 degrees
  it held, while the converted heat setpoint is -18.
\<close>

theorem parseStatus_target_temperature_retained_counterexample:
  "TargetHeatingCoolingState (snd (parseStatus zero_heat_setpoint_state)) = HEAT \<and>
   TargetTemperature (snd (parseStatus zero_heat_setpoint_state)) = Num 20 \<and>
   toCelsius (snd (parseStatus zero_heat_setpoint_state))
     (heatSetpoint (changeableValues (device (snd (parseStatus zero_heat_setpoint_state))))) = Num (- 18)"
proof -
  let ?s = zero_heat_setpoint_state
  have d: "mode (changeableValues (device ?s)) = ''Heat''"
      "heatSetpoint (changeableValues (device ?s)) = Num 0"
      "minHeatSetpoint (device ?s) = Num 0"
      "TargetTemperature ?s = Num 20"
    by (simp_all add: zero_heat_setpoint_state_def example_state_def example_device_def)
  have "TemperatureDisplayUnits (parse_units ?s) = FAHRENHEIT"
    by (simp add: parse_units_def zero_heat_setpoint_state_def example_state_def example_device_def)
  then have u: "TemperatureDisplayUnits (snd (parseStatus ?s)) \<noteq> CELSIUS"
    by (simp add: parseStatus_units FAHRENHEIT_def CELSIUS_def)
  have c: "toCelsius (snd (parseStatus ?s)) (Num 0) = Num (- 18)"
    by (simp only: toCelsius_fahrenheit[OF u] fahrenheit_to_celsius_0)
  have m: "modes ''Heat'' = HEAT" by (simp add: modes_def)
  show ?thesis
    by (simp add: parseStatus_target_state target_temperature_after_parse parseStatus_device d c m)
qed

text \<open>
  C8, amended. After \<^verbatim>\<open>parseStatus\<close>, when the target state is Heat the target temperature is
  the converted heat setpoint provided that setpoint is greater than zero or
  \<^verbatim>\<open>minHeatSetpoint\<close> is a nonzero number; when the target state is not Heat it is the converted
  cool setpoint provided that setpoint is greater than zero or \<^verbatim>\<open>minCoolSetpoint\<close> is a nonzero
  number; in the remaining cases it keeps the value it held.
\<close>

theorem parseStatus_target_temperature_guarded:
  "TargetTemperature (snd (parseStatus s)) =
     (if TargetHeatingCoolingState (snd (parseStatus s)) = HEAT then
        (if gt_zero (heatSetpoint (changeableValues (device s))) \<or> truthy (minHeatSetpoint (device s))
         then toCelsius (snd (parseStatus s)) (heatSetpoint (changeableValues (device s)))
         else TargetTemperature s)
      else
        (if gt_zero (coolSetpoint (changeableValues (device s))) \<or> truthy (minCoolSetpoint (device s))
         then toCelsius (snd (parseStatus s)) (coolSetpoint (changeableValues (device s)))
         else TargetTemperature s))"
proof -
  have u: "\<And>v. toCelsius (snd (parseStatus s)) v = toCelsius (parse_units s) v"
    by (rule toCelsius_units) (simp add: parseStatus_units)
  show ?thesis
    by (simp only: target_temperature_after_parse parseStatus_target_state u)
qed

text \<open>The example snapshot, in Heat mode with a heat setpoint of 68.\<close>

theorem parseStatus_target_temperature_guarded_witness:
  "TargetHeatingCoolingState (snd (parseStatus example_state)) = HEAT \<and>
   gt_zero (heatSetpoint (changeableValues (device example_state))) \<and>
   TargetTemperature (snd (parseStatus example_state)) =
     toCelsius (snd (parseStatus example_state)) (Num 68)"
proof -
  have f: "heatSetpoint (changeableValues (device example_state)) = Num 68"
      "mode (changeableValues (device example_state)) = ''Heat''"
    by (simp_all add: example_state_def example_device_def)
  have m: "modes ''Heat'' = HEAT" by (simp add: modes_def)
  have t: "TargetHeatingCoolingState (snd (parseStatus example_state)) = HEAT"
    by (simp add: parseStatus_target_state f m)
  show ?thesis
    using parseStatus_target_temperature_guarded[of example_state] t by (simp add: f)
qed

subsection \<open>The set handlers\<close>

text \<open>
  C3. Each of the six set handlers assigns the value to its own characteristic field, calls
  \<^verbatim>\<open>next()\<close> on its channel (the thermostat channel for the four thermostat handlers, the fan
  channel for the two fan handlers), which raises that channel's in-progress flag, and then
  calls the callback with null; nothing else of the object changes and no request to the remote
  service is among the effects. \<^verbatim>\<open>setTargetHeatingCoolingState\<close> also assigns the target
  temperature, converted from the snapshot's heat setpoint when the new state is Heat and from
  its cool setpoint otherwise, and publishes it first. With the unit Celsius and a cool setpoint
  of 22, setting the state to Cool stores and publishes 22.
\<close>

theorem set_handlers_mutate_signal_acknowledge:
  "setTargetTemperature v s =
     s\<lparr>TargetTemperature := v, thermostatUpdateInProgress := True,
       trace := trace s @ [SubjectNext doThermostatUpdate, CallbackNull]\<rparr> \<and>
   setHeatingThresholdTemperature v s =
     s\<lparr>HeatingThresholdTemperature := v, thermostatUpdateInProgress := True,
       trace := trace s @ [SubjectNext doThermostatUpdate, CallbackNull]\<rparr> \<and>
   setCoolingThresholdTemperature v s =
     s\<lparr>CoolingThresholdTemperature := v, thermostatUpdateInProgress := True,
       trace := trace s @ [SubjectNext doThermostatUpdate, CallbackNull]\<rparr> \<and>
   setActive v s =
     s\<lparr>Active := v, fanUpdateInProgress := True,
       trace := trace s @ [SubjectNext doFanUpdate, CallbackNull]\<rparr> \<and>
   setTargetFanState v s =
     s\<lparr>TargetFanState := v, fanUpdateInProgress := True,
       trace := trace s @ [SubjectNext doFanUpdate, CallbackNull]\<rparr> \<and>
   setTargetHeatingCoolingState v s =
     s\<lparr>TargetHeatingCoolingState := v,
       TargetTemperature :=
         toCelsius s (if v = HEAT then heatSetpoint (changeableValues (device s))
                      else coolSetpoint (changeableValues (device s))),
       thermostatUpdateInProgress := True,
       trace := trace s @
         [UpdateCharacteristic Characteristic_TargetTemperature
            (toCelsius s (if v = HEAT then heatSetpoint (changeableValues (device s))
                          else coolSetpoint (changeableValues (device s)))),
          SubjectNext doThermostatUpdate, CallbackNull]\<rparr> \<and>
   (\<forall>e \<in> set (emitted s (setTargetTemperature v s)) \<union> set (emitted s (setHeatingThresholdTemperature v s)) \<union>
           set (emitted s (setCoolingThresholdTemperature v s)) \<union> set (emitted s (setActive v s)) \<union>
           set (emitted s (setTargetFanState v s)) \<union> set (emitted s (setTargetHeatingCoolingState v s)).
        \<not> is_network e) \<and>
   (TemperatureDisplayUnits s = CELSIUS \<and> coolSetpoint (changeableValues (device s)) = Num 22 \<longrightarrow>
      TargetTemperature (setTargetHeatingCoolingState COOL s) = Num 22 \<and>
      emitted s (setTargetHeatingCoolingState COOL s) =
        [UpdateCharacteristic Characteristic_TargetTemperature (Num 22),
         SubjectNext doThermostatUpdate, CallbackNull])"
  by (simp add: setTargetTemperature_def setHeatingThresholdTemperature_def
      setCoolingThresholdTemperature_def setActive_def setTargetFanState_def
      setTargetHeatingCoolingState_def doThermostatUpdate_next_def doFanUpdate_next_def
      emit_def emitted_def Let_def toCelsius_def HEAT_def COOL_def CELSIUS_def)

text \<open>The Celsius thermostat with a cool setpoint of 22, set to Cool.\<close>

theorem set_handlers_mutate_signal_acknowledge_witness:
  "TemperatureDisplayUnits celsius_state = CELSIUS \<and>
   coolSetpoint (changeableValues (device celsius_state)) = Num 22 \<and>
   TargetTemperature celsius_state = Num 20 \<and>
   TargetTemperature (setTargetHeatingCoolingState COOL celsius_state) = Num 22 \<and>
   emitted celsius_state (setTargetHeatingCoolingState COOL celsius_state) =
     [UpdateCharacteristic Characteristic_TargetTemperature (Num 22),
      SubjectNext doThermostatUpdate, CallbackNull] \<and>
   filter is_network (emitted celsius_state (setTargetHeatingCoolingState COOL celsius_state)) = []"
proof -
  have f: "TemperatureDisplayUnits celsius_state = CELSIUS"
      "coolSetpoint (changeableValues (device celsius_state)) = Num 22"
      "TargetTemperature celsius_state = Num 20"
    by (simp_all add: celsius_state_def example_state_def example_device_def)
  have g: "TargetTemperature (setTargetHeatingCoolingState COOL celsius_state) = Num 22 \<and>
      emitted celsius_state (setTargetHeatingCoolingState COOL celsius_state) =
        [UpdateCharacteristic Characteristic_TargetTemperature (Num 22),
         SubjectNext doThermostatUpdate, CallbackNull]"
    using set_handlers_mutate_signal_acknowledge[of COOL celsius_state] f by blast
  then show ?thesis using f by simp
qed

text \<open>
  C10, as stated, fails twice on a Fahrenheit thermostat whose remote heat setpoint is zero
  and whose \<^verbatim>\<open>minHeatSetpoint\<close> is 50: setting the target state to Heat stores -18, not -17.5,
  and \<^verbatim>\<open>parseStatus\<close> in the same state does not retain the 20 degrees held before but stores
  -18 as well.
\<close>

theorem setTargetHeatingCoolingState_zero_setpoint_counterexample:
  "heatSetpoint (changeableValues (device zero_heat_setpoint_min50_state)) = Num 0 \<and>
   TemperatureDisplayUnits zero_heat_setpoint_min50_state = FAHRENHEIT \<and>
   TargetTemperature (setTargetHeatingCoolingState HEAT zero_heat_setpoint_min50_state) = Num (- 18) \<and>
   TargetTemperature (setTargetHeatingCoolingState HEAT zero_heat_setpoint_min50_state) \<noteq> Num (- 17.5) \<and>
   TargetTemperature zero_heat_setpoint_min50_state = Num 20 \<and>
   TargetTemperature (snd (parseStatus zero_heat_setpoint_min50_state)) = Num (- 18)"
proof -
  let ?s = zero_heat_setpoint_min50_state
  have d: "mode (changeableValues (device ?s)) = ''Heat''"
      "heatSetpoint (changeableValues (device ?s)) = Num 0"
      "minHeatSetpoint (device ?s) = Num 50"
      "TargetTemperature ?s = Num 20"
      "TemperatureDisplayUnits ?s = FAHRENHEIT"
    by (simp_all add: zero_heat_setpoint_min50_state_def example_state_def example_device_def)
  have p: "TemperatureDisplayUnits (parse_units ?s) = FAHRENHEIT"
    by (simp add: parse_units_def zero_heat_setpoint_min50_state_def example_state_def example_device_def)
  have f: "FAHRENHEIT \<noteq> CELSIUS" by (simp add: FAHRENHEIT_def CELSIUS_def)
  have m: "modes ''Heat'' = HEAT" by (simp add: modes_def)
  show ?thesis
    by (simp add: setTargetHeatingCoolingState_target_temperature target_temperature_after_parse
        toCelsius_zero d p f m)
qed

text \<open>
  C10, amended. In every state whose remote heat setpoint is zero, setting the target state to
  Heat overwrites the target temperature with \<^verbatim>\<open>toCelsius(0)\<close>, which is 0 when the display unit
  is Celsius and -18 otherwise; \<^verbatim>\<open>parseStatus\<close> in the same state, the remote mode being Heat,
  retains the target temperature held before only when \<^verbatim>\<open>minHeatSetpoint\<close> is zero or not a
  number, and otherwise overwrites it with \<^verbatim>\<open>toCelsius(0)\<close> too.
\<close>

theorem setTargetHeatingCoolingState_zero_setpoint:
  "heatSetpoint (changeableValues (device s)) = Num 0 \<Longrightarrow>
   TargetTemperature (setTargetHeatingCoolingState HEAT s) = toCelsius s (Num 0) \<and>
   toCelsius s (Num 0) = (if TemperatureDisplayUnits s = CELSIUS then Num 0 else Num (- 18)) \<and>
   (mode (changeableValues (device s)) = ''Heat'' \<longrightarrow>
      TargetTemperature (snd (parseStatus s)) =
        (if truthy (minHeatSetpoint (device s)) then toCelsius (snd (parseStatus s)) (Num 0)
         else TargetTemperature s))"
proof -
  assume h: "heatSetpoint (changeableValues (device s)) = Num 0"
  have u: "\<And>v. toCelsius (snd (parseStatus s)) v = toCelsius (parse_units s) v"
    by (rule toCelsius_units) (simp add: parseStatus_units)
  have m: "modes ''Heat'' = HEAT" by (simp add: modes_def)
  have 1: "TargetTemperature (setTargetHeatingCoolingState HEAT s) = toCelsius s (Num 0)"
    by (simp add: setTargetHeatingCoolingState_target_temperature h)
  have 2: "mode (changeableValues (device s)) = ''Heat'' \<longrightarrow>
      TargetTemperature (snd (parseStatus s)) =
        (if truthy (minHeatSetpoint (device s)) then toCelsius (snd (parseStatus s)) (Num 0)
         else TargetTemperature s)"
    by (simp add: target_temperature_after_parse h u m)
  from 1 2 toCelsius_zero[of s] show ?thesis by blast
qed

text \<open>With \<^verbatim>\<open>minHeatSetpoint\<close> zero the handler stores -18 and \<^verbatim>\<open>parseStatus\<close> retains 20.\<close>

theorem setTargetHeatingCoolingState_zero_setpoint_witness:
  "heatSetpoint (changeableValues (device zero_heat_setpoint_state)) = Num 0 \<and>
   mode (changeableValues (device zero_heat_setpoint_state)) = ''Heat'' \<and>
   \<not> truthy (minHeatSetpoint (device zero_heat_setpoint_state)) \<and>
   TargetTemperature (setTargetHeatingCoolingState HEAT zero_heat_setpoint_state) = Num (- 18) \<and>
   TargetTemperature (snd (parseStatus zero_heat_setpoint_state)) = Num 20"
proof -
  let ?s = zero_heat_setpoint_state
  have d: "mode (changeableValues (device ?s)) = ''Heat''"
      "heatSetpoint (changeableValues (device ?s)) = Num 0"
      "minHeatSetpoint (device ?s) = Num 0"
      "TargetTemperature ?s = Num 20"
      "TemperatureDisplayUnits ?s = FAHRENHEIT"
    by (simp_all add: zero_heat_setpoint_state_def example_state_def example_device_def)
  have f: "FAHRENHEIT \<noteq> CELSIUS" by (simp add: FAHRENHEIT_def CELSIUS_def)
  show ?thesis
    using setTargetHeatingCoolingState_zero_setpoint[OF d(2)] by (simp add: d f)
qed

subsection \<open>The thermostat flush\<close>

text \<open>
  C1. \<^verbatim>\<open>pushChanges\<close> compares the heating threshold, the cooling threshold and the target
  state with the snapshot's setpoints (converted by \<^verbatim>\<open>toCelsius\<close>) and mode. If one of them
  differs, the first effect is one write, and no other write follows; its setpoints are chosen
  by the target state (Heat: target temperature as heat, cooling threshold as cool; Cool:
  target temperature as cool, heating threshold as heat; Auto or Off: the two thresholds), each
  through \<^verbatim>\<open>toFahrenheit\<close>; when the write succeeds \<^verbatim>\<open>refreshStatus\<close> runs next, and when it is
  rejected the method throws. If none differs, nothing is done.
\<close>

theorem pushChanges_writes_iff_changed:
  "(if strict_ne (HeatingThresholdTemperature s)
         (toCelsius s (heatSetpoint (changeableValues (device s)))) \<or>
       strict_ne (CoolingThresholdTemperature s)
         (toCelsius s (coolSetpoint (changeableValues (device s)))) \<or>
       strict_ne (TargetHeatingCoolingState s) (modes (mode (changeableValues (device s))))
    then \<exists>p es.
           emitted s (snd (pushChanges n s)) = AxiosPostThermostat p # es \<and>
           (\<forall>e\<in>set es. \<forall>q. e \<noteq> AxiosPostThermostat q) \<and>
           payload_mode p = array_get honeywellMode (TargetHeatingCoolingState s) \<and>
           (TargetHeatingCoolingState s = HEAT \<longrightarrow>
              payload_heatSetpoint p = toFahrenheit s (TargetTemperature s) \<and>
              payload_coolSetpoint p = toFahrenheit s (CoolingThresholdTemperature s)) \<and>
           (TargetHeatingCoolingState s = COOL \<longrightarrow>
              payload_coolSetpoint p = toFahrenheit s (TargetTemperature s) \<and>
              payload_heatSetpoint p = toFahrenheit s (HeatingThresholdTemperature s)) \<and>
           (TargetHeatingCoolingState s = AUTO \<or> TargetHeatingCoolingState s = OFF \<longrightarrow>
              payload_coolSetpoint p = toFahrenheit s (CoolingThresholdTemperature s) \<and>
              payload_heatSetpoint p = toFahrenheit s (HeatingThresholdTemperature s)) \<and>
           (post_ok n \<longrightarrow>
              pushChanges n s = (Returned, refreshStatus n (emit (AxiosPostThermostat p) s)) \<and>
              (\<exists>es'. es = AxiosGetThermostat # es')) \<and>
           (\<not> post_ok n \<longrightarrow> pushChanges n s = (Threw, emit (AxiosPostThermostat p) s) \<and> es = [])
    else pushChanges n s = (Returned, s) \<and> emitted s (snd (pushChanges n s)) = [])"
proof -
  let ?p = "\<lparr>payload_mode = array_get honeywellMode (TargetHeatingCoolingState s),
                   payload_thermostatSetpointStatus =
                     (case options_thermostat s of None \<Rightarrow> None
                      | Some t \<Rightarrow> thermostatSetpointStatus t),
                   payload_heatSetpoint =
                     toFahrenheit s (if TargetHeatingCoolingState s = HEAT then TargetTemperature s
                                     else HeatingThresholdTemperature s),
                   payload_coolSetpoint =
                     toFahrenheit s (if TargetHeatingCoolingState s = HEAT then CoolingThresholdTemperature s
                                     else if TargetHeatingCoolingState s = COOL then TargetTemperature s
                                     else CoolingThresholdTemperature s)\<rparr>"
  let ?s1 = "emit (AxiosPostThermostat ?p) s"
  obtain es where es: "trace (refreshStatus n ?s1) = trace ?s1 @ AxiosGetThermostat # es"
      "\<forall>e\<in>set es. \<forall>q. e \<noteq> AxiosPostThermostat q"
    using refreshStatus_trace[of n ?s1] by blast
  have e1: "emitted s (refreshStatus n ?s1) = AxiosPostThermostat ?p # AxiosGetThermostat # es"
    using es(1) by (simp add: emitted_def)
  have e2: "emitted s ?s1 = [AxiosPostThermostat ?p]"
    by (simp add: emitted_def)
  have c: "HEAT \<noteq> COOL" "HEAT \<noteq> AUTO" "HEAT \<noteq> OFF" "COOL \<noteq> AUTO" "COOL \<noteq> OFF"
    by (simp_all add: HEAT_def COOL_def AUTO_def OFF_def)
  define d where "d \<longleftrightarrow>
     strict_ne (HeatingThresholdTemperature s)
         (toCelsius s (heatSetpoint (changeableValues (device s)))) \<or>
       strict_ne (CoolingThresholdTemperature s)
         (toCelsius s (coolSetpoint (changeableValues (device s)))) \<or>
       strict_ne (TargetHeatingCoolingState s) (modes (mode (changeableValues (device s))))"
  have pc: "pushChanges n s =
     (if d then if post_ok n then (Returned, refreshStatus n ?s1) else (Threw, ?s1)
      else (Returned, s))"
    unfolding d_def by (simp only: pushChanges_unfold Let_def)
  show ?thesis
  proof (cases d)
    case False
    then show ?thesis
      unfolding pc d_def[symmetric] by simp
  next
    case True
    show ?thesis
    proof (cases "post_ok n")
      case ok: True
      show ?thesis
        unfolding pc d_def[symmetric]
        apply (simp only: True ok if_True snd_conv)
        apply (rule exI[of _ ?p], rule exI[of _ "AxiosGetThermostat # es"])
        using es(2) e1 c apply simp
        done
    next
      case ko: False
      show ?thesis
        unfolding pc d_def[symmetric]
        apply (simp only: True ko if_True if_False snd_conv)
        apply (rule exI[of _ ?p], rule exI[of _ "[]"])
        using e2 c apply simp
        done
    qed
  qed
qed

text \<open>The heating threshold raised to 21 on the example thermostat: one write, with mode Heat,
  heat setpoint 68 and cool setpoint 75, followed by the read of the refresh.\<close>

theorem pushChanges_writes_iff_changed_witness:
  "strict_ne (HeatingThresholdTemperature changed_threshold_state)
     (toCelsius changed_threshold_state (heatSetpoint (changeableValues (device changed_threshold_state)))) \<and>
   TargetHeatingCoolingState changed_threshold_state = HEAT \<and> post_ok working_transport \<and>
   (\<exists>p es. emitted changed_threshold_state (snd (pushChanges working_transport changed_threshold_state)) =
        AxiosPostThermostat p # AxiosGetThermostat # es \<and>
      payload_mode p = Some ''Heat'' \<and> payload_heatSetpoint p = Num 68 \<and> payload_coolSetpoint p = Num 75)"
proof -
  let ?s = changed_threshold_state
  have f: "HeatingThresholdTemperature ?s = Num 21" "TargetHeatingCoolingState ?s = HEAT"
      "TargetTemperature ?s = Num 20" "CoolingThresholdTemperature ?s = Num 24"
      "heatSetpoint (changeableValues (device ?s)) = Num 68"
      "TemperatureDisplayUnits ?s \<noteq> CELSIUS"
    by (simp_all add: changed_threshold_state_def example_state_def example_device_def
        CELSIUS_def FAHRENHEIT_def)
  have h: "toFahrenheit ?s (Num 20) = Num 68"
    by (simp only: toFahrenheit_fahrenheit[OF f(6)] celsius_to_fahrenheit_20)
  have k: "toFahrenheit ?s (Num 24) = Num 75"
    by (simp only: toFahrenheit_fahrenheit[OF f(6)] celsius_to_fahrenheit_24)
  have d: "strict_ne (HeatingThresholdTemperature ?s)
     (toCelsius ?s (heatSetpoint (changeableValues (device ?s))))"
    by (rule changed_threshold_differs)
  have ok: "post_ok working_transport" by (simp add: working_transport_def)
  have m: "array_get honeywellMode HEAT = Some ''Heat''"
    by (simp add: honeywellMode_def HEAT_def)
  have dd: "strict_ne (HeatingThresholdTemperature ?s)
         (toCelsius ?s (heatSetpoint (changeableValues (device ?s)))) \<or>
       strict_ne (CoolingThresholdTemperature ?s)
         (toCelsius ?s (coolSetpoint (changeableValues (device ?s)))) \<or>
       strict_ne (TargetHeatingCoolingState ?s) (modes (mode (changeableValues (device ?s))))"
    using d by blast
  note T = pushChanges_writes_iff_changed[of ?s working_transport, unfolded if_P[OF dd]]
  from T obtain p es where
      1: "emitted ?s (snd (pushChanges working_transport ?s)) = AxiosPostThermostat p # es" and
      2: "\<forall>e\<in>set es. \<forall>q. e \<noteq> AxiosPostThermostat q" and
      3: "payload_mode p = array_get honeywellMode (TargetHeatingCoolingState ?s)" and
      4: "TargetHeatingCoolingState ?s = HEAT \<longrightarrow>
            payload_heatSetpoint p = toFahrenheit ?s (TargetTemperature ?s) \<and>
            payload_coolSetpoint p = toFahrenheit ?s (CoolingThresholdTemperature ?s)" and
      5: "post_ok working_transport \<longrightarrow>
            pushChanges working_transport ?s =
              (Returned, refreshStatus working_transport (emit (AxiosPostThermostat p) ?s)) \<and>
            (\<exists>es'. es = AxiosGetThermostat # es')"
    by (elim exE conjE)
  from 5 ok obtain es' where 6: "es = AxiosGetThermostat # es'" by blast
  have 7: "payload_mode p = Some ''Heat''" using 3 by (simp only: f(2) m)
  have 8: "payload_heatSetpoint p = Num 68" "payload_coolSetpoint p = Num 75"
    using 4 by (simp_all only: f h k simp_thms)
  have "emitted ?s (snd (pushChanges working_transport ?s)) =
        AxiosPostThermostat p # AxiosGetThermostat # es' \<and>
      payload_mode p = Some ''Heat'' \<and> payload_heatSetpoint p = Num 68 \<and> payload_coolSetpoint p = Num 75"
    using 1 2 6 7 8 by simp
  then have "\<exists>p es. emitted ?s (snd (pushChanges working_transport ?s)) =
        AxiosPostThermostat p # AxiosGetThermostat # es \<and>
      payload_mode p = Some ''Heat'' \<and> payload_heatSetpoint p = Num 68 \<and> payload_coolSetpoint p = Num 75"
    by blast
  with d f(2) ok show ?thesis by blast
qed

subsection \<open>The fan flush\<close>

text \<open>
  C9, as stated, fails: when the fan write is rejected \<^verbatim>\<open>pushFanChanges\<close> throws, and the
  refresh path is not run after it.
\<close>

theorem pushFanChanges_rejected_write_counterexample:
  "fan_enabled example_state \<and>
   fst (pushFanChanges failing_transport example_state) = Threw \<and>
   emitted example_state (snd (pushFanChanges failing_transport example_state)) = [AxiosPostFan ''Auto''] \<and>
   AxiosGetThermostat \<notin> set (emitted example_state (snd (pushFanChanges failing_transport example_state)))"
proof -
  have t: "TargetFanState example_state = FAN_AUTO" by (simp add: example_state_def)
  have p: "\<not> post_ok failing_transport" by (simp add: failing_transport_def)
  show ?thesis
    by (simp add: pushFanChanges_unfold example_fan_enabled t p emitted_def)
qed

text \<open>
  C9, amended. When the fan capability is enabled and not hidden, \<^verbatim>\<open>pushFanChanges\<close> first
  writes one fan mode, whatever the fan sub-resource last fetched says: Auto when the target
  fan state is Auto, On when it is Manual and the fan is active, Circulate when it is Manual
  and the fan is inactive. When the write succeeds \<^verbatim>\<open>refreshStatus\<close> runs next; when it is
  rejected the method throws and no refresh runs. When the fan capability is absent or hidden,
  nothing is written and \<^verbatim>\<open>refreshStatus\<close> runs.
\<close>

theorem pushFanChanges_flush:
  "(fan_enabled s \<longrightarrow>
      (\<exists>m es. emitted s (snd (pushFanChanges n s)) = AxiosPostFan m # es \<and>
         (TargetFanState s = FAN_AUTO \<longrightarrow> m = ''Auto'') \<and>
         (TargetFanState s = FAN_MANUAL \<and> Active s = ACTIVE \<longrightarrow> m = ''On'') \<and>
         (TargetFanState s = FAN_MANUAL \<and> Active s = INACTIVE \<longrightarrow> m = ''Circulate'') \<and>
         (post_ok n \<longrightarrow>
            pushFanChanges n s = (Returned, refreshStatus n (emit (AxiosPostFan m) s)) \<and>
            (\<exists>es'. es = AxiosGetThermostat # es')) \<and>
         (\<not> post_ok n \<longrightarrow> pushFanChanges n s = (Threw, emit (AxiosPostFan m) s) \<and> es = []))) \<and>
   (\<not> fan_enabled s \<longrightarrow>
      pushFanChanges n s = (Returned, refreshStatus n s) \<and>
      (\<exists>es'. emitted s (snd (pushFanChanges n s)) = AxiosGetThermostat # es'))"
proof -
  let ?m = "if TargetFanState s = FAN_AUTO then ''Auto''
                else if TargetFanState s = FAN_MANUAL \<and> Active s = ACTIVE then ''On''
                else if TargetFanState s = FAN_MANUAL \<and> Active s = INACTIVE then ''Circulate''
                else ''Auto''"
  let ?s1 = "emit (AxiosPostFan ?m) s"
  obtain es where es: "trace (refreshStatus n ?s1) = trace ?s1 @ AxiosGetThermostat # es"
    using refreshStatus_trace[of n ?s1] by blast
  obtain es0 where es0: "trace (refreshStatus n s) = trace s @ AxiosGetThermostat # es0"
    using refreshStatus_trace[of n s] by blast
  have e1: "emitted s (refreshStatus n ?s1) = AxiosPostFan ?m # AxiosGetThermostat # es"
    using es by (simp add: emitted_def)
  have e2: "emitted s ?s1 = [AxiosPostFan ?m]"
    by (simp add: emitted_def)
  have e0: "emitted s (refreshStatus n s) = AxiosGetThermostat # es0"
    using es0 by (simp add: emitted_def)
  have c: "FAN_AUTO \<noteq> FAN_MANUAL" "ACTIVE \<noteq> INACTIVE"
    by (simp_all add: FAN_AUTO_def FAN_MANUAL_def ACTIVE_def INACTIVE_def)
  have pc: "pushFanChanges n s =
     (if fan_enabled s then if post_ok n then (Returned, refreshStatus n ?s1) else (Threw, ?s1)
      else (Returned, refreshStatus n s))"
    by (simp only: pushFanChanges_unfold)
  show ?thesis
  proof (cases "fan_enabled s")
    case False
    then show ?thesis unfolding pc using e0 by simp
  next
    case True
    show ?thesis
    proof (cases "post_ok n")
      case ok: True
      show ?thesis
        unfolding pc
        apply (simp only: True ok if_True snd_conv simp_thms)
        apply (rule exI[of _ ?m], rule exI[of _ "AxiosGetThermostat # es"])
        using e1 c apply simp
        done
    next
      case ko: False
      show ?thesis
        unfolding pc
        apply (simp only: True ko if_True if_False snd_conv simp_thms)
        apply (rule exI[of _ ?m], rule exI[of _ "[]"])
        using e2 c apply simp
        done
    qed
  qed
qed

text \<open>A fan already on Auto is written Auto again and refreshed; a manual, active fan is
  written On.\<close>

theorem pushFanChanges_flush_witness:
  "fan_enabled example_state \<and> TargetFanState example_state = FAN_AUTO \<and>
   deviceFan example_state = Some \<lparr>fan_mode = ''Auto''\<rparr> \<and> post_ok working_transport \<and>
   (\<exists>es. emitted example_state (snd (pushFanChanges working_transport example_state)) =
      AxiosPostFan ''Auto'' # AxiosGetThermostat # es) \<and>
   fan_enabled manual_fan_state \<and> TargetFanState manual_fan_state = FAN_MANUAL \<and>
   Active manual_fan_state = ACTIVE \<and> \<not> post_ok failing_transport \<and>
   pushFanChanges failing_transport manual_fan_state = (Threw, emit (AxiosPostFan ''On'') manual_fan_state)"
proof -
  have f: "fan_enabled example_state" "TargetFanState example_state = FAN_AUTO"
      "deviceFan example_state = Some \<lparr>fan_mode = ''Auto''\<rparr>" "post_ok working_transport"
    by (simp_all add: fan_enabled_def example_state_def example_device_def working_transport_def)
  have g: "fan_enabled manual_fan_state" "TargetFanState manual_fan_state = FAN_MANUAL"
      "Active manual_fan_state = ACTIVE" "\<not> post_ok failing_transport"
    by (simp_all add: fan_enabled_def manual_fan_state_def example_state_def example_device_def
        failing_transport_def)
  have 1: "\<exists>es. emitted example_state (snd (pushFanChanges working_transport example_state)) =
      AxiosPostFan ''Auto'' # AxiosGetThermostat # es"
    using pushFanChanges_flush[of example_state working_transport] f by auto
  have 2: "pushFanChanges failing_transport manual_fan_state =
      (Threw, emit (AxiosPostFan ''On'') manual_fan_state)"
    using pushFanChanges_flush[of manual_fan_state failing_transport] g by auto
  from f g 1 2 show ?thesis by blast
qed

subsection \<open>Failure propagation\<close>

text \<open>
  C2, refuted as stated. Take a thermostat built from a snapshot without fan, so that its fan
  service is undefined, and a refresh whose thermostat read now reports the fan capability (not
  hidden) and whose fan read is rejected. The failure publishes the error on the eight
  thermostat characteristics only: the two fan characteristics, which belong to the owned
  characteristics of the snapshot just read, receive nothing.
\<close>

theorem failure_broadcast_skips_fan_counterexample:
  "\<not> fan_enabled no_fan_state \<and> \<not> fanService no_fan_state \<and>
   get_thermostat fan_failing_transport = Some example_device \<and>
   get_fan fan_failing_transport = None \<and>
   fan_enabled (no_fan_state\<lparr>device := example_device\<rparr>) \<and>
   owned_characteristics (no_fan_state\<lparr>device := example_device\<rparr>) =
     [Characteristic_TemperatureDisplayUnits, Characteristic_CurrentTemperature,
      Characteristic_CurrentRelativeHumidity, Characteristic_TargetTemperature,
      Characteristic_HeatingThresholdTemperature, Characteristic_CoolingThresholdTemperature,
      Characteristic_TargetHeatingCoolingState, Characteristic_CurrentHeatingCoolingState,
      Characteristic_TargetFanState, Characteristic_Active] \<and>
   emitted no_fan_state (refreshStatus fan_failing_transport no_fan_state) =
     [AxiosGetThermostat, AxiosGetFan, RefreshAccessToken,
      UpdateCharacteristicError Characteristic_TemperatureDisplayUnits,
      UpdateCharacteristicError Characteristic_CurrentTemperature,
      UpdateCharacteristicError Characteristic_CurrentRelativeHumidity,
      UpdateCharacteristicError Characteristic_TargetTemperature,
      UpdateCharacteristicError Characteristic_HeatingThresholdTemperature,
      UpdateCharacteristicError Characteristic_CoolingThresholdTemperature,
      UpdateCharacteristicError Characteristic_TargetHeatingCoolingState,
      UpdateCharacteristicError Characteristic_CurrentHeatingCoolingState]"
proof -
  have n: "\<not> fan_enabled no_fan_state" "\<not> fanService no_fan_state"
    by (simp_all add: no_fan_state_def fan_enabled_def)
  have b: "get_thermostat fan_failing_transport = Some example_device"
      "get_fan fan_failing_transport = None"
    by (simp_all add: fan_failing_transport_def)
  have f: "fan_enabled (no_fan_state\<lparr>device := example_device\<rparr>)"
    by (simp add: no_fan_state_def fan_enabled_def example_state_def example_device_def)
  have v: "\<not> fanService (no_fan_state\<lparr>device := example_device\<rparr>)"
    by (simp add: no_fan_state_def)
  have o: "owned_characteristics (no_fan_state\<lparr>device := example_device\<rparr>) =
     [Characteristic_TemperatureDisplayUnits, Characteristic_CurrentTemperature,
      Characteristic_CurrentRelativeHumidity, Characteristic_TargetTemperature,
      Characteristic_HeatingThresholdTemperature, Characteristic_CoolingThresholdTemperature,
      Characteristic_TargetHeatingCoolingState, Characteristic_CurrentHeatingCoolingState,
      Characteristic_TargetFanState, Characteristic_Active]"
    by (simp add: owned_characteristics_def f)
  have t: "emitted no_fan_state (refreshStatus fan_failing_transport no_fan_state) =
     [AxiosGetThermostat, AxiosGetFan, RefreshAccessToken,
      UpdateCharacteristicError Characteristic_TemperatureDisplayUnits,
      UpdateCharacteristicError Characteristic_CurrentTemperature,
      UpdateCharacteristicError Characteristic_CurrentRelativeHumidity,
      UpdateCharacteristicError Characteristic_TargetTemperature,
      UpdateCharacteristicError Characteristic_HeatingThresholdTemperature,
      UpdateCharacteristicError Characteristic_CoolingThresholdTemperature,
      UpdateCharacteristicError Characteristic_TargetHeatingCoolingState,
      UpdateCharacteristicError Characteristic_CurrentHeatingCoolingState]"
    by (simp add: refreshStatus_fan_rejected[OF b(1) f b(2)] emitted_def v)
  from n b f o t show ?thesis by (intro conjI)
qed

text \<open>
  C2, amended. Whenever the refresh fails (the thermostat read is rejected, the fan read is
  rejected, or \<^verbatim>\<open>parseStatus\<close> throws), the token refresh is triggered and then the error is
  published on the eight thermostat characteristics, followed by the two fan characteristics
  when the fan capability is enabled and not hidden and the fan service is defined. Whenever
  \<^verbatim>\<open>pushChanges\<close> or \<^verbatim>\<open>pushFanChanges\<close> throws, its subscriber publishes the error on the same
  characteristics. That is every owned characteristic when the fan service is defined or the
  fan capability is absent or hidden. Both subscribers always end with their channel's
  in-progress flag cleared.
\<close>

theorem failure_broadcasts_error_marker:
  "(get_thermostat n = None \<longrightarrow>
      emitted s (refreshStatus n s) =
        AxiosGetThermostat # RefreshAccessToken # error_broadcast s) \<and>
   (\<forall>d. get_thermostat n = Some d \<and> fan_enabled (s\<lparr>device := d\<rparr>) \<and> get_fan n = None \<longrightarrow>
      emitted s (refreshStatus n s) =
        AxiosGetThermostat # AxiosGetFan # RefreshAccessToken # error_broadcast (s\<lparr>device := d\<rparr>)) \<and>
   (fst (parseStatus s) = Threw \<longrightarrow>
      emitted s (refresh_parse s) = RefreshAccessToken # error_broadcast s) \<and>
   (fst (pushChanges n s) = Threw \<longrightarrow>
      (\<exists>p. emitted s (doThermostatUpdate_subscriber n s) =
        AxiosPostThermostat p # error_broadcast s)) \<and>
   (fst (pushFanChanges n s) = Threw \<longrightarrow>
      (\<exists>m. emitted s (doFanUpdate_subscriber n s) =
        AxiosPostFan m # error_broadcast s)) \<and>
   (fanService s \<or> \<not> fan_enabled s \<longrightarrow>
      error_broadcast s = map UpdateCharacteristicError (owned_characteristics s)) \<and>
   \<not> thermostatUpdateInProgress (doThermostatUpdate_subscriber n s) \<and>
   \<not> fanUpdateInProgress (doFanUpdate_subscriber n s)"
proof -
  have 1: "get_thermostat n = None \<longrightarrow>
      emitted s (refreshStatus n s) =
        AxiosGetThermostat # RefreshAccessToken # error_broadcast s"
    by (simp add: refreshStatus_thermostat_rejected emitted_def)
  have 2: "\<forall>d. get_thermostat n = Some d \<and> fan_enabled (s\<lparr>device := d\<rparr>) \<and> get_fan n = None \<longrightarrow>
      emitted s (refreshStatus n s) =
        AxiosGetThermostat # AxiosGetFan # RefreshAccessToken # error_broadcast (s\<lparr>device := d\<rparr>)"
    by (simp add: refreshStatus_fan_rejected emitted_def)
  have 3: "fst (parseStatus s) = Threw \<longrightarrow>
      emitted s (refresh_parse s) = RefreshAccessToken # error_broadcast s"
  proof
    assume t: "fst (parseStatus s) = Threw"
    obtain s' where s': "parseStatus s = (Threw, s')"
      using t by (cases "parseStatus s") auto
    have tr: "trace s' = trace s" using parseStatus_trace[of s] s' by simp
    have fe: "fan_enabled s' = fan_enabled s"
      using fan_enabled_parseStatus[of s] s' by simp
    have fs: "fanService s' = fanService s"
      using fanService_parseStatus[of s] s' by simp
    show "emitted s (refresh_parse s) = RefreshAccessToken # error_broadcast s"
      by (simp add: refresh_parse_def s' refresh_catch_trace tr emitted_def fe fs)
  qed
  have 4: "fst (pushChanges n s) = Threw \<longrightarrow>
      (\<exists>p. emitted s (doThermostatUpdate_subscriber n s) =
        AxiosPostThermostat p # error_broadcast s)"
  proof
    assume "fst (pushChanges n s) = Threw"
    then obtain p where p: "pushChanges n s = (Threw, emit (AxiosPostThermostat p) s)"
      using pushChanges_threw by blast
    have "emitted s (doThermostatUpdate_subscriber n s) =
        AxiosPostThermostat p # error_broadcast s"
      by (simp add: doThermostatUpdate_subscriber_def p apiError_trace emitted_def)
    then show "\<exists>p. emitted s (doThermostatUpdate_subscriber n s) =
        AxiosPostThermostat p # error_broadcast s" ..
  qed
  have 5: "fst (pushFanChanges n s) = Threw \<longrightarrow>
      (\<exists>m. emitted s (doFanUpdate_subscriber n s) =
        AxiosPostFan m # error_broadcast s)"
  proof
    assume "fst (pushFanChanges n s) = Threw"
    then obtain m where m: "pushFanChanges n s = (Threw, emit (AxiosPostFan m) s)"
      using pushFanChanges_threw by blast
    have "emitted s (doFanUpdate_subscriber n s) =
        AxiosPostFan m # error_broadcast s"
      by (simp add: doFanUpdate_subscriber_def m apiError_trace emitted_def)
    then show "\<exists>m. emitted s (doFanUpdate_subscriber n s) =
        AxiosPostFan m # error_broadcast s" ..
  qed
  have 6: "fanService s \<or> \<not> fan_enabled s \<longrightarrow>
      error_broadcast s = map UpdateCharacteristicError (owned_characteristics s)"
    by (auto simp: owned_characteristics_def)
  from 1 2 3 4 5 6 thermostat_flag_cleared[of n s] fan_flag_cleared[of n s]
  show ?thesis by (intro conjI)
qed

text \<open>Each failure on the example thermostat, whose fan is enabled and whose fan service is
  defined: all ten characteristics receive the error.\<close>

theorem failure_broadcasts_error_marker_witness:
  "get_thermostat failing_transport = None \<and> fanService example_state \<and>
   emitted example_state (refreshStatus failing_transport example_state) =
     [AxiosGetThermostat, RefreshAccessToken,
      UpdateCharacteristicError Characteristic_TemperatureDisplayUnits,
      UpdateCharacteristicError Characteristic_CurrentTemperature,
      UpdateCharacteristicError Characteristic_CurrentRelativeHumidity,
      UpdateCharacteristicError Characteristic_TargetTemperature,
      UpdateCharacteristicError Characteristic_HeatingThresholdTemperature,
      UpdateCharacteristicError Characteristic_CoolingThresholdTemperature,
      UpdateCharacteristicError Characteristic_TargetHeatingCoolingState,
      UpdateCharacteristicError Characteristic_CurrentHeatingCoolingState,
      UpdateCharacteristicError Characteristic_TargetFanState,
      UpdateCharacteristicError Characteristic_Active] \<and>
   emitted example_state (refreshStatus failing_transport example_state) =
     AxiosGetThermostat # RefreshAccessToken #
     map UpdateCharacteristicError (owned_characteristics example_state) \<and>
   fst (pushFanChanges failing_transport example_state) = Threw \<and>
   (\<exists>m. emitted example_state (doFanUpdate_subscriber failing_transport example_state) =
      AxiosPostFan m # map UpdateCharacteristicError (owned_characteristics example_state)) \<and>
   fst (pushChanges failing_transport changed_threshold_state) = Threw \<and>
   fanService changed_threshold_state \<and>
   (\<exists>p. emitted changed_threshold_state (doThermostatUpdate_subscriber failing_transport changed_threshold_state) =
      AxiosPostThermostat p # map UpdateCharacteristicError (owned_characteristics changed_threshold_state)) \<and>
   get_thermostat fan_failing_transport = Some example_device \<and>
   fan_enabled (example_state\<lparr>device := example_device\<rparr>) \<and> get_fan fan_failing_transport = None \<and>
   emitted example_state (refreshStatus fan_failing_transport example_state) =
     AxiosGetThermostat # AxiosGetFan # RefreshAccessToken #
     map UpdateCharacteristicError (owned_characteristics (example_state\<lparr>device := example_device\<rparr>)) \<and>
   fst (parseStatus unconfigured_state) = Threw \<and> fanService unconfigured_state \<and>
   emitted unconfigured_state (refresh_parse unconfigured_state) =
     RefreshAccessToken # map UpdateCharacteristicError (owned_characteristics unconfigured_state)"
proof -
  have a: "get_thermostat failing_transport = None" "\<not> post_ok failing_transport"
    by (simp_all add: failing_transport_def)
  have s: "fanService example_state" "fanService changed_threshold_state"
      "fanService unconfigured_state" "fanService (example_state\<lparr>device := example_device\<rparr>)"
    by (simp_all add: example_state_def changed_threshold_state_def unconfigured_state_def)
  have e: "error_broadcast example_state =
     [UpdateCharacteristicError Characteristic_TemperatureDisplayUnits,
      UpdateCharacteristicError Characteristic_CurrentTemperature,
      UpdateCharacteristicError Characteristic_CurrentRelativeHumidity,
      UpdateCharacteristicError Characteristic_TargetTemperature,
      UpdateCharacteristicError Characteristic_HeatingThresholdTemperature,
      UpdateCharacteristicError Characteristic_CoolingThresholdTemperature,
      UpdateCharacteristicError Characteristic_TargetHeatingCoolingState,
      UpdateCharacteristicError Characteristic_CurrentHeatingCoolingState,
      UpdateCharacteristicError Characteristic_TargetFanState,
      UpdateCharacteristicError Characteristic_Active]"
    by (simp add: example_fan_enabled s)
  note E = failure_broadcasts_error_marker[of failing_transport example_state]
  have o1: "error_broadcast example_state =
      map UpdateCharacteristicError (owned_characteristics example_state)"
    using E s(1) by blast
  have 1: "emitted example_state (refreshStatus failing_transport example_state) =
      AxiosGetThermostat # RefreshAccessToken # error_broadcast example_state"
    using E a by blast
  have ft: "fst (pushFanChanges failing_transport example_state) = Threw"
    by (simp add: pushFanChanges_unfold example_fan_enabled a)
  have 2: "\<exists>m. emitted example_state (doFanUpdate_subscriber failing_transport example_state) =
      AxiosPostFan m # error_broadcast example_state"
    using E ft by blast
  have pt: "fst (pushChanges failing_transport changed_threshold_state) = Threw"
    using changed_threshold_differs a by (simp add: pushChanges_unfold Let_def)
  note C = failure_broadcasts_error_marker[of failing_transport changed_threshold_state]
  have o3: "error_broadcast changed_threshold_state =
      map UpdateCharacteristicError (owned_characteristics changed_threshold_state)"
    using C s(2) by blast
  have 3: "\<exists>p. emitted changed_threshold_state (doThermostatUpdate_subscriber failing_transport changed_threshold_state) =
      AxiosPostThermostat p # error_broadcast changed_threshold_state"
    using C pt by blast
  have b: "get_thermostat fan_failing_transport = Some example_device"
      "get_fan fan_failing_transport = None"
      "fan_enabled (example_state\<lparr>device := example_device\<rparr>)"
    by (simp_all add: fan_failing_transport_def fan_enabled_def example_state_def example_device_def)
  have 4: "emitted example_state (refreshStatus fan_failing_transport example_state) =
     AxiosGetThermostat # AxiosGetFan # RefreshAccessToken #
     error_broadcast (example_state\<lparr>device := example_device\<rparr>)"
    using failure_broadcasts_error_marker[of fan_failing_transport example_state] b by blast
  have o4: "error_broadcast (example_state\<lparr>device := example_device\<rparr>) =
      map UpdateCharacteristicError (owned_characteristics (example_state\<lparr>device := example_device\<rparr>))"
    using failure_broadcasts_error_marker[of failing_transport "example_state\<lparr>device := example_device\<rparr>"] s(4)
    by blast
  have th: "fst (parseStatus unconfigured_state) = Threw"
    by (simp add: parseStatus_def parse_fan_def)
      (simp add: unconfigured_state_def example_state_def example_device_def)
  note U = failure_broadcasts_error_marker[of failing_transport unconfigured_state]
  have o5: "error_broadcast unconfigured_state =
      map UpdateCharacteristicError (owned_characteristics unconfigured_state)"
    using U s(3) by blast
  have 5: "emitted unconfigured_state (refresh_parse unconfigured_state) =
     RefreshAccessToken # error_broadcast unconfigured_state"
    using U th by blast
  from a(1) s(1,2,3) 1[unfolded e] 1[unfolded o1] ft 2[unfolded o1] pt 3[unfolded o3] b
    4[unfolded o4] th 5[unfolded o5]
  show ?thesis by (intro conjI)
qed

end
